theory Spec2Isabelle
  imports Main "HOL-Library.Word"
begin

section \<open>Shared types\<close>

type_synonym u32 = "32 word"
type_synonym u64 = "64 word"

text \<open>\<open>common.Hash\<close> is a 32-byte array; the zero value is the all-zero hash.\<close>

type_synonym hash = "256 word"

section \<open>Compaction-chain store (package db, LevelDBBackedDB)\<close>

datatype db_error =
    ErrBlockExists
  | ErrBlockDoesNotExist
  | ErrInvalidCompactionChainTipHeight
  | ErrDKGPrivateKeyExists
  | ErrDKGPrivateKeyDoesNotExist
  | ErrDKGMasterPrivateSharesDoesNotExist
  | ErrLevelDB
  | ErrRLP

record compactionChainTipInfo =
  tip_Height :: u64
  tip_Hash :: hash

text \<open>
  The database, as far as the tip operations go: the bytes stored under the key
  \<open>cc-tip\<close>, \<open>None\<close> when \<open>db.Get\<close> answers \<open>leveldb.ErrNotFound\<close>.
\<close>

record LevelDBBackedDB =
  cc_tip :: "8 word list option"

text \<open>
  What lies outside the package and decides the outcome of one call: the error, other
  than \<open>ErrNotFound\<close>, that \<open>db.Get\<close> returns (\<open>None\<close> when it returns none), the error
  that \<open>db.Put\<close> returns, and the RLP codec on tip records. The constructors
  \<open>ErrLevelDB\<close> and \<open>ErrRLP\<close> stand for the errors of leveldb and of the codec.
\<close>

record store_env =
  db_Get_error :: "db_error option"
  db_Put_error :: "db_error option"
  rlp_EncodeToBytes :: "compactionChainTipInfo \<Rightarrow> db_error + 8 word list"
  rlp_DecodeBytes :: "8 word list \<Rightarrow> db_error + compactionChainTipInfo"

text \<open>
  \<open>internalGetCompactionChainTipInfo\<close>: an error of \<open>db.Get\<close> is returned, except that
  a missing record is not an error and gives the zero value of the struct; a record
  that is found is decoded, and the decoder's error is returned.
\<close>

definition internalGetCompactionChainTipInfo ::
  "store_env \<Rightarrow> LevelDBBackedDB \<Rightarrow> db_error + compactionChainTipInfo" where
  "internalGetCompactionChainTipInfo env lvl =
     (case db_Get_error env of
        Some err \<Rightarrow> Inl err
      | None \<Rightarrow>
          (case cc_tip lvl of
             None \<Rightarrow> Inr \<lparr>tip_Height = 0, tip_Hash = 0\<rparr>
           | Some queried \<Rightarrow> rlp_DecodeBytes env queried))"


text \<open>
  \<open>PutCompactionChainTipInfo\<close> returns the error (\<open>None\<close> is Go's \<open>nil\<close>) and the
  database after the call: encode, read the current tip, compare, write.
  \<open>info.Height+1\<close> is \<open>uint64\<close> addition, which wraps. A \<open>db.Put\<close> that returns an
  error is taken to have written nothing.
\<close>

definition PutCompactionChainTipInfo ::
  "store_env \<Rightarrow> LevelDBBackedDB \<Rightarrow> hash \<Rightarrow> u64 \<Rightarrow> db_error option \<times> LevelDBBackedDB" where
  "PutCompactionChainTipInfo env lvl blockHash height =
     (case rlp_EncodeToBytes env \<lparr>tip_Height = height, tip_Hash = blockHash\<rparr> of
        Inl err \<Rightarrow> (Some err, lvl)
      | Inr marshaled \<Rightarrow>
          (case internalGetCompactionChainTipInfo env lvl of
             Inl err \<Rightarrow> (Some err, lvl)
           | Inr info \<Rightarrow>
               if tip_Height info + 1 \<noteq> height
               then (Some ErrInvalidCompactionChainTipHeight, lvl)
               else
                 (case db_Put_error env of
                    Some err \<Rightarrow> (Some err, lvl)
                  | None \<Rightarrow> (None, lvl\<lparr>cc_tip := Some marshaled\<rparr>))))"

text \<open>
  For examples only: a store whose operations do not fail, with a two-byte stand-in
  for the RLP codec (the low byte of the height, then the low byte of the hash).
\<close>

definition example_store :: store_env where
  "example_store =
     \<lparr>db_Get_error = None, db_Put_error = None,
      rlp_EncodeToBytes = (\<lambda>info. Inr [ucast (tip_Height info), ucast (tip_Hash info)]),
      rlp_DecodeBytes = (\<lambda>bs. case bs of
          [a, b] \<Rightarrow> Inr \<lparr>tip_Height = ucast a, tip_Hash = ucast b\<rparr>
        | _ \<Rightarrow> Inl ErrRLP)\<rparr>"

section \<open>Block timestamps on the wire (package types, rlpTimestamp)\<close>

text \<open>
  A Go \<open>time.Time\<close> is read here as the instant it denotes: whole seconds since the Unix
  epoch and the nanoseconds within that second, which Go keeps in \<open>[0, 999999999]\<close>.
  The location (\<open>.UTC()\<close>) does not change the instant.
\<close>

record Time =
  unix_sec :: int
  unix_nsec :: int

definition wf_Time :: "Time \<Rightarrow> bool" where
  "wf_Time t = (0 \<le> unix_nsec t \<and> unix_nsec t < 1000000000)"

text \<open>The nanosecond count since the epoch, as a mathematical integer.\<close>

definition nanos :: "Time \<Rightarrow> int" where
  "nanos t = unix_sec t * 1000000000 + unix_nsec t"

text \<open>Go's \<open>/\<close> and \<open>%\<close> on signed integers truncate towards zero.\<close>

definition go_quot :: "int \<Rightarrow> int \<Rightarrow> int" where
  "go_quot a b = sgn a * sgn b * (\<bar>a\<bar> div \<bar>b\<bar>)"

definition go_rem :: "int \<Rightarrow> int \<Rightarrow> int" where
  "go_rem a b = a - b * go_quot a b"

text \<open>
  \<open>time.Unix(sec, nsec)\<close> of the Go library: a nanosecond argument outside
  \<open>[0, 999999999]\<close> is carried into the seconds.
\<close>

definition Unix :: "int \<Rightarrow> int \<Rightarrow> Time" where
  "Unix sec nsec =
     (if nsec < 0 \<or> nsec \<ge> 1000000000 then
        (let n = go_quot nsec 1000000000;
             sec1 = sec + n;
             nsec1 = nsec - n * 1000000000
         in if nsec1 < 0
            then \<lparr>unix_sec = sec1 - 1, unix_nsec = nsec1 + 1000000000\<rparr>
            else \<lparr>unix_sec = sec1, unix_nsec = nsec1\<rparr>)
      else \<lparr>unix_sec = sec, unix_nsec = nsec\<rparr>)"

text \<open>
  \<open>t.UnixNano()\<close> is computed in \<open>int64\<close>, which wraps; the 64-bit word is that
  \<open>int64\<close> in two's complement (\<open>sint\<close> reads it).
\<close>

definition UnixNano :: "Time \<Rightarrow> u64" where
  "UnixNano t = word_of_int (unix_sec t * 1000000000 + unix_nsec t)"

text \<open>
  \<open>rlpTimestamp.EncodeRLP\<close> writes \<open>uint64(t.UTC().UnixNano())\<close>: the conversion keeps
  the bits. \<open>rlpTimestamp.DecodeRLP\<close> reads a \<open>uint64\<close>, converts it to \<open>int64\<close>
  and splits it. The model works on the \<open>uint64\<close> that RLP carries.
\<close>

definition rlpTimestamp_EncodeRLP :: "Time \<Rightarrow> u64" where
  "rlpTimestamp_EncodeRLP t = UnixNano t"

definition rlpTimestamp_DecodeRLP :: "u64 \<Rightarrow> Time" where
  "rlpTimestamp_DecodeRLP nano =
     (let sec = go_quot (sint nano) 1000000000;
          nsec = go_rem (sint nano) 1000000000
      in Unix sec nsec)"

section \<open>Blocks and positions (package types)\<close>

record Position =
  ChainID :: u32
  Round :: u64
  Height :: u64

record Witness =
  witness_Height :: u64
  witness_Data :: "8 word list"

text \<open>
  The fields of \<open>Block\<close> that the verified operations read. Identity, acknowledgement,
  finalization and signature fields are not read by them and are left out.
\<close>

record Block =
  Hash :: hash
  Position :: Position
  Timestamp :: Time
  Payload :: "8 word list"
  Witness :: Witness

text \<open>
  \<open>BlocksByPosition.Less(i, j)\<close> on the slice \<open>bs\<close> is
  \<open>bs[j].Position.Newer(bs[i].Position)\<close>. \<open>Position.Newer\<close> is declared outside the
  given sources and the spec does not define it, so it is a parameter: nothing below
  depends on how it compares two positions.
\<close>

definition BlocksByPosition_Less ::
  "(Position \<Rightarrow> Position \<Rightarrow> bool) \<Rightarrow> Block list \<Rightarrow> nat \<Rightarrow> nat \<Rightarrow> bool" where
  "BlocksByPosition_Less newer bs i j = newer (Position (bs ! j)) (Position (bs ! i))"

text \<open>
  \<open>sort.IsSorted\<close> of the Go library, the contract that the result of \<open>sort.Sort\<close>
  meets: \<open>for i := n - 1; i > 0; i-- { if data.Less(i, i-1) { return false } }\<close>.
  \<open>IsSorted_down lt k\<close> is the loop from \<open>i = k\<close> downwards.
\<close>

primrec IsSorted_down :: "(nat \<Rightarrow> nat \<Rightarrow> bool) \<Rightarrow> nat \<Rightarrow> bool" where
  "IsSorted_down lt 0 = True"
| "IsSorted_down lt (Suc i) = (if lt (Suc i) i then False else IsSorted_down lt i)"

definition sort_IsSorted :: "(nat \<Rightarrow> nat \<Rightarrow> bool) \<Rightarrow> nat \<Rightarrow> bool" where
  "sort_IsSorted lt n = IsSorted_down lt (n - 1)"

text \<open>
  For examples only: a block of chain 0 at a given round and height, every other field
  zero, and one relation that can stand for \<open>Newer\<close> (later round, then greater
  height).
\<close>

definition block_at :: "u64 \<Rightarrow> u64 \<Rightarrow> Block" where
  "block_at r h =
     \<lparr>Hash = 0, Position = \<lparr>ChainID = 0, Round = r, Height = h\<rparr>,
      Timestamp = \<lparr>unix_sec = 0, unix_nsec = 0\<rparr>, Payload = [],
      Witness = \<lparr>witness_Height = 0, witness_Data = []\<rparr>\<rparr>"

definition example_newer :: "Position \<Rightarrow> Position \<Rightarrow> bool" where
  "example_newer pos other =
     (Round pos > Round other \<or> (Round pos = Round other \<and> Height pos > Height other))"

section \<open>Application core (package dex, DexconApp)\<close>

text \<open>
  \<open>common.Address\<close> is a 20-byte array; \<open>address.Big()\<close> reads it as a big-endian
  unsigned integer (\<open>uint\<close>).
\<close>

type_synonym address = "160 word"

datatype BlockVerifyStatus = VerifyOK | VerifyRetryLater | VerifyInvalidBlock

text \<open>
  The errors that \<open>preparePayload\<close> and \<open>validateNonce\<close> return, named by the place
  that returns them.
\<close>

datatype app_error =
    ErrPreviousBlockNotExists
  | ErrStateAt
  | ErrTxPoolPending
  | ErrIntrinsicGas
  | ErrAsMessage
  | ErrAddressNonce

text \<open>
  The panics in reach: the explicit one after \<open>rawdb.ReadLastRoundNumber\<close> fails,
  \<open>big.Int.Mod\<close> by zero in \<open>addrBelongsToChain\<close>, and \<open>big.Int.Sub\<close> on a nil
  balance.
\<close>

datatype go_panic = PanicReadCurrentRound | PanicDivisionByZero | PanicNilBalance

text \<open>
  What the application core reads of a transaction. \<open>tx_From\<close> is the sender that
  signature recovery yields (\<open>tx.AsMessage\<close>, \<open>GlobalSigCache.Add\<close>), \<open>None\<close> when
  recovery fails. \<open>tx_IntrinsicGas\<close> is the result of \<open>core.IntrinsicGas\<close> on the
  transaction's data, \<open>None\<close> when it returns an error. Balances and costs are
  \<open>big.Int\<close>, hence \<open>int\<close>.
\<close>

record Transaction =
  tx_From :: "address option"
  tx_Nonce :: u64
  tx_Gas :: u64
  tx_GasPrice :: int
  tx_Value :: int
  tx_IntrinsicGas :: "u64 option"

text \<open>Modelled from the spec: \<open>Transaction.Cost\<close> is declared outside the given
  sources; the spec gives \<open>tx.cost = tx.gas * tx.gas_price + tx.value\<close>.\<close>

definition tx_Cost :: "Transaction \<Rightarrow> int" where
  "tx_Cost tx = uint (tx_Gas tx) * tx_GasPrice tx + tx_Value tx"

text \<open>The state view \<open>blockchain.StateAt(root)\<close> returns.\<close>

record StateDB =
  GetBalance :: "address \<Rightarrow> int"
  GetNonce :: "address \<Rightarrow> u64"

text \<open>
  What is read of a block of the canonical chain (\<open>types.Block\<close> of the execution
  layer).
\<close>

record chain_block =
  blk_NumberU64 :: u64
  blk_Hash :: hash
  blk_Root :: hash
  blk_GasLimit :: u64

text \<open>
  The collaborators of \<open>DexconApp\<close> as the functions the core calls on them: the
  blockchain, governance, the chain database, the per-chain roots, the transaction
  pool and the RLP codec. A Go result \<open>(v, ok)\<close> or \<open>(v, err)\<close> is an option.
  \<open>gov_NumChains r\<close> is \<open>gov.Configuration(r).NumChains\<close>, which is also what
  \<open>gov.GetNumChains(r)\<close> returns; \<open>gov_BlockGasLimit r\<close> is
  \<open>gov.DexconConfiguration(r).BlockGasLimit\<close>. The pool's pending map is listed in
  the order the \<open>range\<close> loop visits it.
\<close>

record DexconApp =
  CurrentBlock :: chain_block
  GetBlockByNumber :: "u64 \<Rightarrow> chain_block option"
  StateAt :: "hash \<Rightarrow> StateDB option"
  GetChainLastConfirmedHeight :: "u32 \<Rightarrow> u64 option"
  GetLastNonceInConfirmedBlocks :: "u32 \<Rightarrow> address \<Rightarrow> u64 option"
  GetCostInConfirmedBlocks :: "u32 \<Rightarrow> address \<Rightarrow> int option"
  gov_NumChains :: "u64 \<Rightarrow> u32"
  gov_BlockGasLimit :: "u64 \<Rightarrow> u64"
  ReadLastRoundNumber :: "u64 option"
  chainRoot :: "u32 \<Rightarrow> hash option"
  txPool_Pending :: "(address \<times> Transaction list) list option"
  rlp_decode_hash :: "8 word list \<Rightarrow> hash option"
  rlp_decode_txs :: "8 word list \<Rightarrow> Transaction list option"
  rlp_encode_txs :: "Transaction list \<Rightarrow> 8 word list"

text \<open>
  \<open>addrBelongsToChain\<close>: \<open>address.Big() mod chainSize == chainID\<close> on \<open>big.Int\<close>;
  \<open>big.Int.Mod\<close> panics on a zero modulus.
\<close>

definition addrBelongsToChain :: "address \<Rightarrow> int \<Rightarrow> int \<Rightarrow> go_panic + bool" where
  "addrBelongsToChain address chainSize chainID =
     (if chainSize = 0 then Inl PanicDivisionByZero
      else Inr (uint address mod chainSize = chainID))"

text \<open>
  The expected next nonce of an address, computed the same way in \<open>preparePayload\<close>
  and in \<open>VerifyBlock\<close>; \<open>lastConfirmedNonce + 1\<close> is a \<open>uint64\<close> sum.
\<close>

definition expectedNonce :: "DexconApp \<Rightarrow> StateDB \<Rightarrow> u32 \<Rightarrow> address \<Rightarrow> u64" where
  "expectedNonce d currentState chain address =
     (case GetLastNonceInConfirmedBlocks d chain address of
        Some lastConfirmedNonce \<Rightarrow> lastConfirmedNonce + 1
      | None \<Rightarrow> GetNonce currentState address)"

text \<open>
  The balance left after the confirmed, undelivered blocks of the chain, computed the
  same way in both functions.
\<close>

definition pendingBalance :: "DexconApp \<Rightarrow> StateDB \<Rightarrow> u32 \<Rightarrow> address \<Rightarrow> int" where
  "pendingBalance d currentState chain address =
     (case GetCostInConfirmedBlocks d chain address of
        Some cost \<Rightarrow> GetBalance currentState address - cost
      | None \<Rightarrow> GetBalance currentState address)"

text \<open>
  The round gate that opens both \<open>preparePayload\<close> and the locked part of
  \<open>VerifyBlock\<close>: \<open>Inr True\<close> when the number of chains changed at this round and
  the last delivered round is still below it.
\<close>

definition roundReshaping :: "DexconApp \<Rightarrow> Position \<Rightarrow> go_panic + bool" where
  "roundReshaping d position =
     (if Round position > 0 then
        (let previousNumChains = gov_NumChains d (Round position - 1);
             currentNumChains = gov_NumChains d (Round position)
         in if previousNumChains \<noteq> currentNumChains then
              (case ReadLastRoundNumber d of
                 None \<Rightarrow> Inl PanicReadCurrentRound
               | Some deliveredRound \<Rightarrow> Inr (deliveredRound < Round position))
            else Inr False)
      else Inr False)"

text \<open>The height check of both functions: \<open>!ok || chainLastHeight != position.Height-1\<close>.\<close>

definition previousBlockMissing :: "DexconApp \<Rightarrow> Position \<Rightarrow> bool" where
  "previousBlockMissing d position =
     (Height position \<noteq> 0 \<and>
      (case GetChainLastConfirmedHeight d (ChainID position) of
         None \<Rightarrow> True
       | Some chainLastHeight \<Rightarrow> chainLastHeight \<noteq> Height position - 1))"

text \<open>
  \<open>validateNonce\<close>. The map \<open>addressFirstNonce\<close> is kept as an association list in
  order of first appearance, since \<open>VerifyBlock\<close> ranges over it afterwards;
  \<open>addressNonce[from]+1\<close> is a \<open>uint64\<close> sum.
\<close>

fun validateNonce_loop ::
  "Transaction list \<Rightarrow> (address \<times> u64) list \<Rightarrow> (address \<rightharpoonup> u64)
     \<Rightarrow> app_error + (address \<times> u64) list" where
  "validateNonce_loop [] addressFirstNonce addressNonce = Inr addressFirstNonce"
| "validateNonce_loop (tx # txs) addressFirstNonce addressNonce =
     (case tx_From tx of
        None \<Rightarrow> Inl ErrAsMessage
      | Some from \<Rightarrow>
          (case map_of addressFirstNonce from of
             Some _ \<Rightarrow>
               (if (case addressNonce from of None \<Rightarrow> 0 | Some n \<Rightarrow> n) + 1 \<noteq> tx_Nonce tx
                then Inl ErrAddressNonce
                else validateNonce_loop txs addressFirstNonce
                       (addressNonce(from \<mapsto> tx_Nonce tx)))
           | None \<Rightarrow>
               validateNonce_loop txs (addressFirstNonce @ [(from, tx_Nonce tx)])
                 (addressNonce(from \<mapsto> tx_Nonce tx))))"

definition validateNonce :: "Transaction list \<Rightarrow> app_error + (address \<times> u64) list" where
  "validateNonce txs = validateNonce_loop txs [] Map.empty"

text \<open>
  The loop of \<open>VerifyBlock\<close> over the first nonces: \<open>Inr False\<close> stands for the
  return of \<open>VerifyInvalidBlock\<close>. Every failing iteration returns the same status,
  so the order in which Go ranges over the map does not show in the result.
\<close>

fun verifyAddresses ::
  "DexconApp \<Rightarrow> StateDB \<Rightarrow> Position \<Rightarrow> (address \<times> u64) list \<Rightarrow> go_panic + bool" where
  "verifyAddresses d currentState position [] = Inr True"
| "verifyAddresses d currentState position ((address, firstNonce) # rest) =
     (case addrBelongsToChain address (uint (gov_NumChains d (Round position)))
             (uint (ChainID position)) of
        Inl p \<Rightarrow> Inl p
      | Inr False \<Rightarrow> Inr False
      | Inr True \<Rightarrow>
          if expectedNonce d currentState (ChainID position) address \<noteq> firstNonce
          then Inr False
          else verifyAddresses d currentState position rest)"

text \<open>
  The loop of \<open>VerifyBlock\<close> over the transactions, with the running balances and the
  running gas; the gas is added as \<open>new(big.Int).SetUint64(tx.Gas())\<close>.
\<close>

fun verifyTransactions ::
  "Transaction list \<Rightarrow> (address \<rightharpoonup> int) \<Rightarrow> int \<Rightarrow> int \<Rightarrow> go_panic + BlockVerifyStatus" where
  "verifyTransactions [] addressesBalance blockGasUsed blockGasLimit = Inr VerifyOK"
| "verifyTransactions (tx # txs) addressesBalance blockGasUsed blockGasLimit =
     (case tx_From tx of
        None \<Rightarrow> Inr VerifyInvalidBlock
      | Some from \<Rightarrow>
          (case tx_IntrinsicGas tx of
             None \<Rightarrow> Inr VerifyInvalidBlock
           | Some intrGas \<Rightarrow>
               if tx_Gas tx < intrGas then Inr VerifyInvalidBlock
               else
                 (case addressesBalance from of
                    None \<Rightarrow> Inl PanicNilBalance
                  | Some balance0 \<Rightarrow>
                      (let balance = balance0 - tx_Cost tx in
                       if balance < 0 then Inr VerifyInvalidBlock
                       else
                         (let blockGasUsed' = blockGasUsed + uint (tx_Gas tx) in
                          if blockGasUsed' > blockGasLimit then Inr VerifyInvalidBlock
                          else verifyTransactions txs (addressesBalance(from \<mapsto> balance))
                                 blockGasUsed' blockGasLimit)))))"

text \<open>The witness checks that open \<open>VerifyBlock\<close>; \<open>None\<close> when all of them pass.\<close>

definition verifyWitness :: "DexconApp \<Rightarrow> Block \<Rightarrow> BlockVerifyStatus option" where
  "verifyWitness d block =
     (case rlp_decode_hash d (witness_Data (Witness block)) of
        None \<Rightarrow> Some VerifyInvalidBlock
      | Some witnessBlockHash \<Rightarrow>
          if blk_NumberU64 (CurrentBlock d) < witness_Height (Witness block)
          then Some VerifyRetryLater
          else
            (case GetBlockByNumber d (witness_Height (Witness block)) of
               None \<Rightarrow> Some VerifyInvalidBlock
             | Some b \<Rightarrow>
                 if blk_Hash b \<noteq> witnessBlockHash then Some VerifyInvalidBlock
                 else
                   (case StateAt d (blk_Root b) of
                      None \<Rightarrow> Some VerifyInvalidBlock
                    | Some _ \<Rightarrow> None)))"

text \<open>\<open>VerifyBlock\<close> from the load of the chain root to its end.\<close>

definition verifyPayload :: "DexconApp \<Rightarrow> Block \<Rightarrow> go_panic + BlockVerifyStatus" where
  "verifyPayload d block =
     (case chainRoot d (ChainID (Position block)) of
        None \<Rightarrow> Inr VerifyRetryLater
      | Some root \<Rightarrow>
          (case StateAt d root of
             None \<Rightarrow> Inr VerifyInvalidBlock
           | Some currentState \<Rightarrow>
               if length (Payload block) = 0 then Inr VerifyOK
               else
                 (case rlp_decode_txs d (Payload block) of
                    None \<Rightarrow> Inr VerifyInvalidBlock
                  | Some transactions \<Rightarrow>
                      if \<exists>tx\<in>set transactions. tx_From tx = None
                      then Inr VerifyInvalidBlock
                      else
                        (case validateNonce transactions of
                           Inl _ \<Rightarrow> Inr VerifyInvalidBlock
                         | Inr addressNonce \<Rightarrow>
                             (case verifyAddresses d currentState (Position block) addressNonce of
                                Inl p \<Rightarrow> Inl p
                              | Inr False \<Rightarrow> Inr VerifyInvalidBlock
                              | Inr True \<Rightarrow>
                                  verifyTransactions transactions
                                    (map_of (map (\<lambda>(address, _).
                                       (address, pendingBalance d currentState
                                                   (ChainID (Position block)) address))
                                       addressNonce))
                                    0 (uint (blk_GasLimit (CurrentBlock d))))))))"

text \<open>
  \<open>VerifyBlock\<close>: the witness checks, the height check, the round gate, then the
  payload checks. The per-chain lock is not modelled.
\<close>

definition VerifyBlock :: "DexconApp \<Rightarrow> Block \<Rightarrow> go_panic + BlockVerifyStatus" where
  "VerifyBlock d block =
     (case verifyWitness d block of
        Some status \<Rightarrow> Inr status
      | None \<Rightarrow>
          if previousBlockMissing d (Position block) then Inr VerifyRetryLater
          else
            (case roundReshaping d (Position block) of
               Inl p \<Rightarrow> Inl p
             | Inr True \<Rightarrow>
                 if length (Payload block) > 0 then Inr VerifyInvalidBlock else Inr VerifyOK
             | Inr False \<Rightarrow> verifyPayload d block))"

text \<open>
  The inner loop of \<open>preparePayload\<close> over one sender's queue. The boolean tells
  that the block gas limit was hit (\<open>break addressMap\<close>). The gas is added as
  \<open>big.NewInt(int64(tx.Gas()))\<close>, hence read as signed.
\<close>

fun collectTransactions ::
  "Transaction list \<Rightarrow> int \<Rightarrow> int \<Rightarrow> int \<Rightarrow> Transaction list
     \<Rightarrow> app_error + (bool \<times> int \<times> Transaction list)" where
  "collectTransactions [] balance blockGasUsed blockGasLimit allTxs =
     Inr (False, blockGasUsed, allTxs)"
| "collectTransactions (tx # txs) balance blockGasUsed blockGasLimit allTxs =
     (case tx_IntrinsicGas tx of
        None \<Rightarrow> Inl ErrIntrinsicGas
      | Some intrGas \<Rightarrow>
          if tx_Gas tx < intrGas then Inr (False, blockGasUsed, allTxs)
          else
            (let balance' = balance - tx_Cost tx in
             if balance' < 0 then Inr (False, blockGasUsed, allTxs)
             else
               (let blockGasUsed' = blockGasUsed + sint (tx_Gas tx) in
                if blockGasUsed' > blockGasLimit then Inr (True, blockGasUsed', allTxs)
                else collectTransactions txs balance' blockGasUsed' blockGasLimit
                       (allTxs @ [tx]))))"

text \<open>
  The loop of \<open>preparePayload\<close> over the pending map. \<open>ctxDone k\<close> tells whether
  the \<open>k\<close>-th poll of \<open>ctx.Done()\<close> finds the soft deadline expired; poll 0 is the
  one after the lock, poll \<open>k > 0\<close> the one before the \<open>k\<close>-th address.
  \<open>startIndex\<close> is \<open>int(expectNonce - firstNonce)\<close>: a \<open>uint64\<close> difference read
  as signed.
\<close>

fun addressMap_loop ::
  "DexconApp \<Rightarrow> (nat \<Rightarrow> bool) \<Rightarrow> StateDB \<Rightarrow> Position
     \<Rightarrow> (address \<times> Transaction list) list \<Rightarrow> nat \<Rightarrow> int \<Rightarrow> Transaction list
     \<Rightarrow> go_panic + app_error + Transaction list" where
  "addressMap_loop d ctxDone currentState position [] k blockGasUsed allTxs = Inr (Inr allTxs)"
| "addressMap_loop d ctxDone currentState position ((address, txs) # rest) k blockGasUsed allTxs =
     (if ctxDone k then Inr (Inr allTxs)
      else
        (case addrBelongsToChain address (uint (gov_NumChains d (Round position)))
                (uint (ChainID position)) of
           Inl p \<Rightarrow> Inl p
         | Inr False \<Rightarrow>
             addressMap_loop d ctxDone currentState position rest (Suc k) blockGasUsed allTxs
         | Inr True \<Rightarrow>
             (let balance = pendingBalance d currentState (ChainID position) address;
                  expectNonce = expectedNonce d currentState (ChainID position) address
              in case txs of
                   [] \<Rightarrow> addressMap_loop d ctxDone currentState position rest (Suc k)
                           blockGasUsed allTxs
                 | first # _ \<Rightarrow>
                     (let startIndex = sint (expectNonce - tx_Nonce first) in
                      case collectTransactions
                             (if startIndex < 0 then [] else drop (nat startIndex) txs)
                             balance blockGasUsed
                             (uint (blk_GasLimit (CurrentBlock d))) allTxs of
                        Inl e \<Rightarrow> Inr (Inl e)
                      | Inr (True, _, allTxs') \<Rightarrow> Inr (Inr allTxs')
                      | Inr (False, blockGasUsed', allTxs') \<Rightarrow>
                          addressMap_loop d ctxDone currentState position rest (Suc k)
                            blockGasUsed' allTxs'))))"

text \<open>
  The inner \<open>preparePayload\<close>, run by the worker goroutine under the soft deadline.
  A panic of the worker ends the process and is the result \<open>Inl\<close>.
\<close>

definition preparePayload ::
  "DexconApp \<Rightarrow> (nat \<Rightarrow> bool) \<Rightarrow> Position \<Rightarrow> go_panic + (8 word list \<times> app_error option)" where
  "preparePayload d ctxDone position =
     (if ctxDone 0 then Inr ([], None)
      else
        (case roundReshaping d position of
           Inl p \<Rightarrow> Inl p
         | Inr True \<Rightarrow> Inr ([], None)
         | Inr False \<Rightarrow>
             if previousBlockMissing d position then Inr ([], Some ErrPreviousBlockNotExists)
             else
               (case chainRoot d (ChainID position) of
                  None \<Rightarrow> Inr ([], None)
                | Some root \<Rightarrow>
                    (case StateAt d root of
                       None \<Rightarrow> Inr ([], Some ErrStateAt)
                     | Some currentState \<Rightarrow>
                         (case txPool_Pending d of
                            None \<Rightarrow> Inr ([], Some ErrTxPoolPending)
                          | Some txsMap \<Rightarrow>
                              (case addressMap_loop d ctxDone currentState position txsMap
                                      1 0 [] of
                                 Inl p \<Rightarrow> Inl p
                               | Inr (Inl e) \<Rightarrow> Inr ([], Some e)
                               | Inr (Inr allTxs) \<Rightarrow>
                                   Inr (rlp_encode_txs d allTxs, None)))))))"

text \<open>
  What the scheduler decides in one call of \<open>PreparePayload\<close>: when the soft
  deadline fires for the worker, whether the worker's error is in \<open>errCh\<close> when the
  caller polls it, and whether the payload is in \<open>payloadCh\<close> when the caller polls
  that. A nil byte slice and an empty one are both \<open>[]\<close>.
\<close>

record schedule =
  softDone :: "nat \<Rightarrow> bool"
  errReady :: bool
  payloadReady :: bool

text \<open>
  \<open>PreparePayload\<close>: after the hard deadline or the worker's completion, the caller
  polls \<open>errCh\<close> and returns a non-nil error found there at once; otherwise it polls
  \<open>payloadCh\<close> and returns what it finds, with a nil error.
\<close>

definition PreparePayload ::
  "DexconApp \<Rightarrow> schedule \<Rightarrow> Position \<Rightarrow> go_panic + (8 word list \<times> app_error option)" where
  "PreparePayload d sched position =
     (case preparePayload d (softDone sched) position of
        Inl p \<Rightarrow> Inl p
      | Inr (workerPayload, workerErr) \<Rightarrow>
          if workerErr \<noteq> None \<and> errReady sched then Inr ([], workerErr)
          else Inr (if payloadReady sched then workerPayload else [], None))"

text \<open>The run \<open>n, n+1, ...\<close> of \<open>k\<close> nonces in \<open>uint64\<close> arithmetic.\<close>

fun nonce_run :: "u64 \<Rightarrow> nat \<Rightarrow> u64 list" where
  "nonce_run n 0 = []"
| "nonce_run n (Suc k) = n # nonce_run (n + 1) k"

text \<open>The nonces of the transactions of sender \<open>s\<close>, in payload order.\<close>

definition nonces_of :: "address \<Rightarrow> Transaction list \<Rightarrow> u64 list" where
  "nonces_of s txs = map tx_Nonce (filter (\<lambda>tx. tx_From tx = Some s) txs)"

text \<open>
  For examples: a transfer of sender 4 with 21000 gas at price 10 and value 1, and an
  application whose head block has height 5 and gas limit 50000, whose governance has
  4 chains in round 0, 8 chains later and a block gas limit of 100000, whose last
  delivered round is 0, where every account holds 1000000 and has the given state
  nonce, and where the payload \<open>[1]\<close> decodes to the given transactions.
\<close>

definition transfer :: "u64 \<Rightarrow> Transaction" where
  "transfer n =
     \<lparr>tx_From = Some 4, tx_Nonce = n, tx_Gas = 21000, tx_GasPrice = 10, tx_Value = 1,
      tx_IntrinsicGas = Some 21000\<rparr>"

definition example_app :: "u64 \<Rightarrow> Transaction list \<Rightarrow> DexconApp" where
  "example_app stateNonce txs =
     \<lparr>CurrentBlock = \<lparr>blk_NumberU64 = 5, blk_Hash = 55, blk_Root = 77, blk_GasLimit = 50000\<rparr>,
      GetBlockByNumber = (\<lambda>n. if n = 5
         then Some \<lparr>blk_NumberU64 = 5, blk_Hash = 55, blk_Root = 77, blk_GasLimit = 50000\<rparr>
         else None),
      StateAt = (\<lambda>root. if root = 77
         then Some \<lparr>GetBalance = (\<lambda>a. 1000000), GetNonce = (\<lambda>a. stateNonce)\<rparr>
         else None),
      GetChainLastConfirmedHeight = (\<lambda>c. None),
      GetLastNonceInConfirmedBlocks = (\<lambda>c a. None),
      GetCostInConfirmedBlocks = (\<lambda>c a. None),
      gov_NumChains = (\<lambda>r. if r = 0 then 4 else 8),
      gov_BlockGasLimit = (\<lambda>r. 100000),
      ReadLastRoundNumber = Some 0,
      chainRoot = (\<lambda>c. Some 77),
      txPool_Pending = Some [(4, txs)],
      rlp_decode_hash = (\<lambda>bs. if bs = [55] then Some 55 else None),
      rlp_decode_txs = (\<lambda>bs. if bs = [1] then Some txs else None),
      rlp_encode_txs = (\<lambda>ts. if ts = [] then [0] else [1])\<rparr>"

text \<open>For examples: a block of chain 0 whose witness names the head block.\<close>

definition example_block :: "u64 \<Rightarrow> u64 \<Rightarrow> 8 word list \<Rightarrow> Block" where
  "example_block r h payload =
     \<lparr>Hash = 0, Position = \<lparr>ChainID = 0, Round = r, Height = h\<rparr>,
      Timestamp = \<lparr>unix_sec = 0, unix_nsec = 0\<rparr>, Payload = payload,
      Witness = \<lparr>witness_Height = 5, witness_Data = [55]\<rparr>\<rparr>"

text \<open>
  The \<open>GasLimit\<close> field of the header that \<open>BlockDelivered\<close> builds for a delivered
  block: \<open>d.gov.DexconConfiguration(block.Position.Round).BlockGasLimit\<close>.
\<close>

definition deliveredGasLimit :: "DexconApp \<Rightarrow> Block \<Rightarrow> u64" where
  "deliveredGasLimit d block = gov_BlockGasLimit d (Round (Position block))"

text \<open>
  For examples only: the application of \<open>example_app\<close> with state nonce 0 after
  governance has changed the block gas limit between rounds. There are 4 chains in
  every round; the head block was delivered in round 0 and carries the limit \<open>g0\<close>
  that governance configures for round 0, as \<open>BlockDelivered\<close> stamps it; from round
  1 on governance configures \<open>g1\<close>; chain 0 has confirmed blocks up to height 5.
\<close>

definition staged_app :: "u64 \<Rightarrow> u64 \<Rightarrow> Transaction list \<Rightarrow> DexconApp" where
  "staged_app g0 g1 txs =
     (example_app 0 txs)
       \<lparr>CurrentBlock := \<lparr>blk_NumberU64 = 5, blk_Hash = 55, blk_Root = 77, blk_GasLimit = g0\<rparr>,
        GetBlockByNumber := (\<lambda>n. if n = 5
          then Some \<lparr>blk_NumberU64 = 5, blk_Hash = 55, blk_Root = 77, blk_GasLimit = g0\<rparr>
          else None),
        GetChainLastConfirmedHeight := (\<lambda>c. Some 5),
        gov_NumChains := (\<lambda>r. 4),
        gov_BlockGasLimit := (\<lambda>r. if r = 0 then g0 else g1)\<rparr>"

text \<open>The sum of \<open>tx.Gas()\<close> over a payload.\<close>

definition total_gas :: "Transaction list \<Rightarrow> int" where
  "total_gas txs = (\<Sum>tx\<leftarrow>txs. uint (tx_Gas tx))"

section \<open>Peer-set topology (package dex, peerSet)\<close>

text \<open>The two kinds of node set a label can name (\<open>dkgset = iota\<close>, then \<open>notaryset\<close>).\<close>

datatype setType = dkgset | notaryset

record peerLabel =
  label_set :: setType
  label_chainID :: u32
  label_round :: u64

text \<open>
  Group names are the strings built by \<open>notarySetName(chainID, round)\<close> and
  \<open>dkgSetName(round)\<close>; distinct arguments give distinct strings, so the name is kept
  as the arguments.
\<close>

datatype group_name = notarySetName u32 u64 | dkgSetName u64

text \<open>
  What the peer set reads from outside: its own public key, the node id that
  \<open>newNode(pk).ID().String()\<close> yields for a public key, and the governance lookups.
  A governance set is the list of its keys (a Go map used as a set); \<open>None\<close> is a
  lookup that returned an error.
\<close>

record topo_env =
  selfPK :: string
  nodeID :: "string \<Rightarrow> string"
  gov_DKGSet :: "u64 \<Rightarrow> string list option"
  gov_NotarySet :: "u64 \<Rightarrow> u32 \<Rightarrow> string list option"
  gov_GetNumChains :: "u64 \<Rightarrow> u32"

text \<open>
  The fields of \<open>peerSet\<close> that the topology operations touch. The three histories
  are Go maps used as sets, kept as lists without duplicates. The p2p server behind
  \<open>ps.srvr\<close> is represented by what the calls made to it add up to:
  \<open>srvr_direct\<close> holds the node ids passed to \<open>AddDirectPeer\<close> and not passed to
  \<open>RemoveDirectPeer\<close> since, \<open>srvr_groups\<close> the groups added and not removed since
  (the group size, always \<open>groupNodeNum = 3\<close>, is not kept).
\<close>

record peerSet =
  peer2Labels :: "string \<rightharpoonup> peerLabel set"
  label2Peers :: "peerLabel \<rightharpoonup> string set"
  history :: "u64 list"
  notaryHistory :: "u64 list"
  dkgHistory :: "u64 list"
  srvr_direct :: "string set"
  srvr_groups :: "group_name \<rightharpoonup> string list"

definition newPeerSet :: peerSet where
  "newPeerSet =
     \<lparr>peer2Labels = Map.empty, label2Peers = Map.empty, history = [], notaryHistory = [],
      dkgHistory = [], srvr_direct = {}, srvr_groups = Map.empty\<rparr>"

text \<open>
  \<open>ps.peer2Labels[id]\<close> and \<open>ps.label2Peers[label]\<close> as Go reads them: a missing key
  gives a nil map, which has no elements.
\<close>

definition labels_of :: "peerSet \<Rightarrow> string \<Rightarrow> peerLabel set" where
  "labels_of ps nid = (case peer2Labels ps nid of None \<Rightarrow> {} | Some ls \<Rightarrow> ls)"

definition peers_of :: "peerSet \<Rightarrow> peerLabel \<Rightarrow> string set" where
  "peers_of ps label = (case label2Peers ps label of None \<Rightarrow> {} | Some nids \<Rightarrow> nids)"

text \<open>
  \<open>addLabel\<close> takes the node; the model takes its id. An inner map is created when
  the key is missing, then the element is inserted.
\<close>

definition addLabel :: "string \<Rightarrow> peerLabel \<Rightarrow> peerSet \<Rightarrow> peerSet" where
  "addLabel nid label ps =
     ps\<lparr>peer2Labels := (peer2Labels ps)(nid \<mapsto> insert label (labels_of ps nid)),
        label2Peers := (label2Peers ps)(label \<mapsto> insert nid (peers_of ps label))\<rparr>"

text \<open>
  \<open>removeLabel\<close>: delete from both inner maps (a no-op on a nil map), then drop each
  outer key whose inner map has become empty.
\<close>

definition removeLabel :: "string \<Rightarrow> peerLabel \<Rightarrow> peerSet \<Rightarrow> peerSet" where
  "removeLabel nid label ps =
     (let p2l = (case peer2Labels ps nid of
                   None \<Rightarrow> peer2Labels ps
                 | Some ls \<Rightarrow> (peer2Labels ps)(nid \<mapsto> ls - {label}));
          l2p = (case label2Peers ps label of
                   None \<Rightarrow> label2Peers ps
                 | Some nids \<Rightarrow> (label2Peers ps)(label \<mapsto> nids - {nid}));
          p2l' = (if (case p2l nid of None \<Rightarrow> True | Some ls \<Rightarrow> ls = {})
                  then p2l(nid := None) else p2l);
          l2p' = (if (case l2p label of None \<Rightarrow> True | Some nids \<Rightarrow> nids = {})
                  then l2p(label := None) else l2p)
      in ps\<lparr>peer2Labels := p2l', label2Peers := l2p'\<rparr>)"

definition addDirectPeer :: "topo_env \<Rightarrow> string \<Rightarrow> peerLabel \<Rightarrow> peerSet \<Rightarrow> peerSet" where
  "addDirectPeer env pk label ps =
     (let node = nodeID env pk;
          ps1 = addLabel node label ps
      in ps1\<lparr>srvr_direct := insert node (srvr_direct ps1)\<rparr>)"

definition removeDirectPeer :: "topo_env \<Rightarrow> string \<Rightarrow> peerLabel \<Rightarrow> peerSet \<Rightarrow> peerSet" where
  "removeDirectPeer env pk label ps =
     (let node = nodeID env pk;
          ps1 = removeLabel node label ps
      in if labels_of ps1 node = {}
         then ps1\<lparr>srvr_direct := srvr_direct ps1 - {node}\<rparr>
         else ps1)"

text \<open>The chain ids visited by \<open>for cid := uint32(0); cid < n; cid++\<close>.\<close>

definition chain_ids :: "u32 \<Rightarrow> u32 list" where
  "chain_ids n = map word_of_nat [0..<unat n]"

definition AddGroup :: "group_name \<Rightarrow> string list \<Rightarrow> peerSet \<Rightarrow> peerSet" where
  "AddGroup name nodes ps = ps\<lparr>srvr_groups := (srvr_groups ps)(name \<mapsto> nodes)\<rparr>"

definition RemoveGroup :: "group_name \<Rightarrow> peerSet \<Rightarrow> peerSet" where
  "RemoveGroup name ps = ps\<lparr>srvr_groups := (srvr_groups ps)(name := None)\<rparr>"

text \<open>
  After a failed \<open>DKGSet\<close> lookup the error is logged and the nil map is used: it has
  no keys.
\<close>

definition pks_or_nil :: "string list option \<Rightarrow> string list" where
  "pks_or_nil r = (case r of None \<Rightarrow> [] | Some pks \<Rightarrow> pks)"

text \<open>
  One iteration of the chain loop of \<open>BuildConnection\<close>; the boolean is
  \<open>inOneNotarySet\<close>. Ranging over a Go map visits each key once in no fixed order;
  the model visits the keys in list order.
\<close>

definition build_notary_chain ::
  "topo_env \<Rightarrow> u64 \<Rightarrow> u32 \<Rightarrow> peerSet \<times> bool \<Rightarrow> peerSet \<times> bool" where
  "build_notary_chain env round cid st =
     (case gov_NotarySet env round cid of
        None \<Rightarrow> st
      | Some notaryPKs \<Rightarrow>
          (let label = \<lparr>label_set = notaryset, label_chainID = cid, label_round = round\<rparr> in
           if selfPK env \<notin> set notaryPKs
           then (AddGroup (notarySetName cid round) (map (nodeID env) notaryPKs)
                   (fold (\<lambda>pk. addLabel (nodeID env pk) label) notaryPKs (fst st)), snd st)
           else (fold (\<lambda>pk. addDirectPeer env pk label)
                   (removeAll (selfPK env) notaryPKs) (fst st), True)))"

definition BuildConnection :: "topo_env \<Rightarrow> u64 \<Rightarrow> peerSet \<Rightarrow> peerSet" where
  "BuildConnection env round ps =
     (let ps0 = ps\<lparr>history := List.insert round (history ps)\<rparr>;
          dkgPKs = pks_or_nil (gov_DKGSet env round);
          inDKGSet = (selfPK env \<in> set dkgPKs);
          dkgLabel = \<lparr>label_set = dkgset, label_chainID = 0, label_round = round\<rparr>;
          ps1 = (if inDKGSet
                 then fold (\<lambda>pk. addDirectPeer env pk dkgLabel)
                        (removeAll (selfPK env) dkgPKs) ps0
                 else ps0);
          (ps2, inOneNotarySet) =
             fold (build_notary_chain env round) (chain_ids (gov_GetNumChains env round))
               (ps1, False)
      in if \<not> inDKGSet \<and> inOneNotarySet
         then AddGroup (dkgSetName round) (map (nodeID env) dkgPKs)
                (fold (\<lambda>pk. addLabel (nodeID env pk) dkgLabel) dkgPKs ps2)
         else ps2)"

text \<open>One iteration of the chain loop of \<open>forgetConnection\<close>.\<close>

definition forget_notary_chain ::
  "topo_env \<Rightarrow> u64 \<Rightarrow> u32 \<Rightarrow> peerSet \<times> bool \<Rightarrow> peerSet \<times> bool" where
  "forget_notary_chain env round cid st =
     (case gov_NotarySet env round cid of
        None \<Rightarrow> st
      | Some notaryPKs \<Rightarrow>
          (let label = \<lparr>label_set = notaryset, label_chainID = cid, label_round = round\<rparr> in
           if selfPK env \<notin> set notaryPKs
           then (RemoveGroup (notarySetName cid round)
                   (fold (\<lambda>pk. removeLabel (nodeID env pk) label) notaryPKs (fst st)), snd st)
           else (fold (\<lambda>pk. removeDirectPeer env pk label)
                   (removeAll (selfPK env) notaryPKs) (fst st), True)))"

definition forgetConnection :: "topo_env \<Rightarrow> u64 \<Rightarrow> peerSet \<Rightarrow> peerSet" where
  "forgetConnection env round ps =
     (let dkgPKs = pks_or_nil (gov_DKGSet env round);
          inDKGSet = (selfPK env \<in> set dkgPKs);
          label = \<lparr>label_set = dkgset, label_chainID = 0, label_round = round\<rparr>;
          ps1 = (if inDKGSet
                 then fold (\<lambda>pk. removeDirectPeer env pk label)
                        (removeAll (selfPK env) dkgPKs) ps
                 else ps);
          (ps2, inOneNotarySet) =
             fold (forget_notary_chain env round) (chain_ids (gov_GetNumChains env round))
               (ps1, False)
      in if \<not> inDKGSet \<and> inOneNotarySet
         then RemoveGroup (dkgSetName round)
                (fold (\<lambda>pk. removeLabel (nodeID env pk) label) dkgPKs ps2)
         else ps2)"

text \<open>
  \<open>ForgetConnection\<close> ranges over the recorded rounds and, for each \<open>r \<le> round\<close>,
  calls \<open>ps.forgetConnection(round)\<close> (with the argument, as the source has it) and
  deletes \<open>r\<close> from the history.
\<close>

definition ForgetConnection :: "topo_env \<Rightarrow> u64 \<Rightarrow> peerSet \<Rightarrow> peerSet" where
  "ForgetConnection env round ps =
     fold (\<lambda>r ps'. if r \<le> round
                    then (let ps1 = forgetConnection env round ps'
                          in ps1\<lparr>history := removeAll r (history ps1)\<rparr>)
                    else ps')
       (history ps) ps"

text \<open>One iteration of the chain loop of \<open>BuildNotaryConn\<close>.\<close>

definition build_notary_conn_chain :: "topo_env \<Rightarrow> u64 \<Rightarrow> u32 \<Rightarrow> peerSet \<Rightarrow> peerSet" where
  "build_notary_conn_chain env round chainID ps =
     (case gov_NotarySet env round chainID of
        None \<Rightarrow> ps
      | Some s \<Rightarrow>
          if selfPK env \<notin> set s
          then AddGroup (notarySetName chainID round) (map (nodeID env) s) ps
          else (let label = \<lparr>label_set = notaryset, label_chainID = chainID, label_round = round\<rparr>
                in fold (\<lambda>pk. addDirectPeer env pk label) (removeAll (selfPK env) s) ps))"

definition BuildNotaryConn :: "topo_env \<Rightarrow> u64 \<Rightarrow> peerSet \<Rightarrow> peerSet" where
  "BuildNotaryConn env round ps =
     (if round \<in> set (notaryHistory ps) then ps
      else fold (build_notary_conn_chain env round) (chain_ids (gov_GetNumChains env round))
             (ps\<lparr>notaryHistory := List.insert round (notaryHistory ps)\<rparr>))"

text \<open>One iteration of the chain loop of \<open>forgetNotaryConn\<close>.\<close>

definition forget_notary_conn_chain :: "topo_env \<Rightarrow> u64 \<Rightarrow> u32 \<Rightarrow> peerSet \<Rightarrow> peerSet" where
  "forget_notary_conn_chain env round chainID ps =
     (case gov_NotarySet env round chainID of
        None \<Rightarrow> ps
      | Some s \<Rightarrow>
          if selfPK env \<notin> set s
          then RemoveGroup (notarySetName chainID round) ps
          else (let label = \<lparr>label_set = notaryset, label_chainID = chainID, label_round = round\<rparr>
                in fold (\<lambda>pk. removeDirectPeer env pk label) (removeAll (selfPK env) s) ps))"

definition forgetNotaryConn :: "topo_env \<Rightarrow> u64 \<Rightarrow> peerSet \<Rightarrow> peerSet" where
  "forgetNotaryConn env round ps =
     fold (forget_notary_conn_chain env round) (chain_ids (gov_GetNumChains env round)) ps"

definition ForgetNotaryConn :: "topo_env \<Rightarrow> u64 \<Rightarrow> peerSet \<Rightarrow> peerSet" where
  "ForgetNotaryConn env round ps =
     fold (\<lambda>r ps'. if r \<le> round
                    then (let ps1 = forgetNotaryConn env r ps'
                          in ps1\<lparr>notaryHistory := removeAll r (notaryHistory ps1)\<rparr>)
                    else ps')
       (notaryHistory ps) ps"

definition BuildDKGConn :: "topo_env \<Rightarrow> u64 \<Rightarrow> peerSet \<Rightarrow> peerSet" where
  "BuildDKGConn env round ps =
     (case gov_DKGSet env round of
        None \<Rightarrow> ps
      | Some s \<Rightarrow>
          if selfPK env \<notin> set s then ps
          else fold (\<lambda>pk. addDirectPeer env pk
                             \<lparr>label_set = dkgset, label_chainID = 0, label_round = round\<rparr>)
                 (removeAll (selfPK env) s)
                 (ps\<lparr>dkgHistory := List.insert round (dkgHistory ps)\<rparr>))"

definition forgetDKGConn :: "topo_env \<Rightarrow> u64 \<Rightarrow> peerSet \<Rightarrow> peerSet" where
  "forgetDKGConn env round ps =
     (case gov_DKGSet env round of
        None \<Rightarrow> ps
      | Some s \<Rightarrow>
          if selfPK env \<notin> set s then ps
          else (let label = \<lparr>label_set = dkgset, label_chainID = 0, label_round = round\<rparr>
                in fold (\<lambda>pk. removeDirectPeer env pk label) (removeAll (selfPK env) s) ps))"

definition ForgetDKGConn :: "topo_env \<Rightarrow> u64 \<Rightarrow> peerSet \<Rightarrow> peerSet" where
  "ForgetDKGConn env round ps =
     fold (\<lambda>r ps'. if r \<le> round
                    then (let ps1 = forgetDKGConn env r ps'
                          in ps1\<lparr>dkgHistory := removeAll r (dkgHistory ps1)\<rparr>)
                    else ps')
       (dkgHistory ps) ps"

text \<open>Sequences of topology operations, run from the state that \<open>newPeerSet\<close> creates.\<close>

datatype topo_op =
    OpBuildConnection u64
  | OpForgetConnection u64
  | OpBuildNotaryConn u64
  | OpForgetNotaryConn u64
  | OpBuildDKGConn u64
  | OpForgetDKGConn u64

fun topo_step :: "topo_env \<Rightarrow> topo_op \<Rightarrow> peerSet \<Rightarrow> peerSet" where
  "topo_step env (OpBuildConnection r) ps = BuildConnection env r ps"
| "topo_step env (OpForgetConnection r) ps = ForgetConnection env r ps"
| "topo_step env (OpBuildNotaryConn r) ps = BuildNotaryConn env r ps"
| "topo_step env (OpForgetNotaryConn r) ps = ForgetNotaryConn env r ps"
| "topo_step env (OpBuildDKGConn r) ps = BuildDKGConn env r ps"
| "topo_step env (OpForgetDKGConn r) ps = ForgetDKGConn env r ps"

definition topo_run :: "topo_env \<Rightarrow> topo_op list \<Rightarrow> peerSet" where
  "topo_run env ops = fold (topo_step env) ops newPeerSet"

text \<open>Sequences of the two label primitives.\<close>

datatype label_op = OpAddLabel string peerLabel | OpRemoveLabel string peerLabel

fun label_step :: "label_op \<Rightarrow> peerSet \<Rightarrow> peerSet" where
  "label_step (OpAddLabel nid l) ps = addLabel nid l ps"
| "label_step (OpRemoveLabel nid l) ps = removeLabel nid l ps"


text \<open>
  A governance for examples: one chain per round, an empty DKG set, the notary set of
  round 1 holds this node and a peer \<open>p\<close>, every other notary set holds \<open>p\<close> alone.
\<close>

definition example_env :: topo_env where
  "example_env =
     \<lparr>selfPK = ''self'', nodeID = (\<lambda>pk. pk),
      gov_DKGSet = (\<lambda>r. Some []),
      gov_NotarySet = (\<lambda>r c. if r = 1 then Some [''self'', ''p''] else Some [''p'']),
      gov_GetNumChains = (\<lambda>r. 1)\<rparr>"

text \<open>
  A label is a member label when governance returns, for the label's round (and chain),
  a set that holds this node: these are the labels \<open>addDirectPeer\<close> is called with.
\<close>

definition label_is_member :: "topo_env \<Rightarrow> peerLabel \<Rightarrow> bool" where
  "label_is_member env l =
     (case label_set l of
        dkgset \<Rightarrow> selfPK env \<in> set (pks_or_nil (gov_DKGSet env (label_round l)))
      | notaryset \<Rightarrow>
          (case gov_NotarySet env (label_round l) (label_chainID l) of
             None \<Rightarrow> False
           | Some pks \<Rightarrow> selfPK env \<in> set pks))"

text \<open>
  This node is in every set governance returns for the round: the DKG set and the
  notary set of each chain \<open>BuildConnection\<close> visits. \<open>BuildConnection\<close> then takes
  the direct-peer branch for each of them and never the group fallback.
\<close>

definition in_every_set :: "topo_env \<Rightarrow> u64 \<Rightarrow> bool" where
  "in_every_set env r =
     ((case gov_DKGSet env r of None \<Rightarrow> True | Some pks \<Rightarrow> selfPK env \<in> set pks)
      \<and> list_all (\<lambda>cid. case gov_NotarySet env r cid of
                            None \<Rightarrow> True
                          | Some pks \<Rightarrow> selfPK env \<in> set pks)
           (chain_ids (gov_GetNumChains env r)))"

text \<open>
  The direct peers are exactly the labelled peers, and every label a peer carries is a
  member label.
\<close>

definition direct_matches :: "topo_env \<Rightarrow> peerSet \<Rightarrow> bool" where
  "direct_matches env ps =
     (srvr_direct ps = {p. labels_of ps p \<noteq> {}}
      \<and> (\<forall>p l. l \<in> labels_of ps p \<longrightarrow> label_is_member env l))"

text \<open>
  A second governance for examples: one chain per round, every DKG set holds this node
  and a peer \<open>q\<close>, every notary set holds this node and a peer \<open>p\<close>.
\<close>

definition member_env :: topo_env where
  "member_env =
     \<lparr>selfPK = ''self'', nodeID = (\<lambda>pk. pk),
      gov_DKGSet = (\<lambda>r. Some [''self'', ''q'']),
      gov_NotarySet = (\<lambda>r c. Some [''self'', ''p'']),
      gov_GetNumChains = (\<lambda>r. 1)\<rparr>"

text \<open>The two label maps are inverse to each other and hold no empty inner map.\<close>

definition labels_inverse :: "peerSet \<Rightarrow> bool" where
  "labels_inverse ps =
     ((\<forall>p l. l \<in> labels_of ps p \<longleftrightarrow> p \<in> peers_of ps l)
      \<and> (\<forall>p. peer2Labels ps p \<noteq> Some {})
      \<and> (\<forall>l. label2Peers ps l \<noteq> Some {}))"

section \<open>Properties of the store\<close>


text \<open>
  The errors of the store itself come back unchanged and leave the database as it was:
  an encoding error, an error of the read (a failed \<open>db.Get\<close> or a record that does not
  decode), and, at the right height, an error of \<open>db.Put\<close>.
\<close>

lemma PutCompactionChainTipInfo_store_errors:
  "(rlp_EncodeToBytes env \<lparr>tip_Height = height, tip_Hash = h\<rparr> = Inl e \<longrightarrow>
      PutCompactionChainTipInfo env lvl h height = (Some e, lvl))
   \<and> (rlp_EncodeToBytes env \<lparr>tip_Height = height, tip_Hash = h\<rparr> = Inr bytes
        \<and> internalGetCompactionChainTipInfo env lvl = Inl e \<longrightarrow>
      PutCompactionChainTipInfo env lvl h height = (Some e, lvl))
   \<and> (rlp_EncodeToBytes env \<lparr>tip_Height = height, tip_Hash = h\<rparr> = Inr bytes
        \<and> internalGetCompactionChainTipInfo env lvl = Inr info
        \<and> height = tip_Height info + 1 \<and> db_Put_error env = Some e \<longrightarrow>
      PutCompactionChainTipInfo env lvl h height = (Some e, lvl))"
  by (auto simp: PutCompactionChainTipInfo_def)

text \<open>
  On the example store with a failing \<open>db.Put\<close>, a put at the right height returns
  the error of \<open>db.Put\<close> and the tip stays at height 10.
\<close>

lemma PutCompactionChainTipInfo_failing_put:
  "PutCompactionChainTipInfo (example_store\<lparr>db_Put_error := Some ErrLevelDB\<rparr>)
     \<lparr>cc_tip = Some [10, 3]\<rparr> 7 11
   = (Some ErrLevelDB, \<lparr>cc_tip = Some [10, 3]\<rparr>)"
  by (simp add: PutCompactionChainTipInfo_def internalGetCompactionChainTipInfo_def
        example_store_def)



section \<open>Properties of the timestamp codec\<close>

lemma sint_word_of_int_int64:
  assumes "- (2 ^ 63) \<le> n" "n < 2 ^ 63"
  shows "sint (word_of_int n :: u64) = n"
  using assms by (simp add: sint_sbintrunc' signed_take_bit_int_eq_self)

lemma decode_split_nonneg:
  assumes "0 \<le> ns" "ns < 1000000000" "0 \<le> s * 1000000000 + ns"
  shows "Unix (go_quot (s * 1000000000 + ns) 1000000000) (go_rem (s * 1000000000 + ns) 1000000000)
         = \<lparr>unix_sec = s, unix_nsec = ns\<rparr>"
proof -
  have q: "go_quot (s * 1000000000 + ns) 1000000000 = s"
    using assms by (simp add: go_quot_def sgn_if)
  show ?thesis using assms by (simp add: go_rem_def q Unix_def)
qed

lemma decode_split_neg:
  assumes "0 \<le> ns" "ns < 1000000000" "s * 1000000000 + ns < 0"
  shows "Unix (go_quot (s * 1000000000 + ns) 1000000000) (go_rem (s * 1000000000 + ns) 1000000000)
         = \<lparr>unix_sec = s, unix_nsec = ns\<rparr>"
proof (cases "ns = 0")
  case True
  have s: "s < 0" using assms True by simp
  then have q: "go_quot (s * 1000000000) 1000000000 = s"
    by (simp add: go_quot_def sgn_if)
  show ?thesis using s True by (simp add: go_rem_def q Unix_def)
next
  case False
  have "\<bar>s * 1000000000 + ns\<bar> = (- s - 1) * 1000000000 + (1000000000 - ns)"
    using assms by (simp add: algebra_simps)
  then have "\<bar>s * 1000000000 + ns\<bar> div 1000000000 = - s - 1"
    using assms False by simp
  then have q: "go_quot (s * 1000000000 + ns) 1000000000 = s + 1"
    using assms by (simp add: go_quot_def sgn_if)
  have q2: "go_quot (ns - 1000000000) 1000000000 = 0"
    using assms False by (simp add: go_quot_def sgn_if)
  have r: "go_rem (s * 1000000000 + ns) 1000000000 = ns - 1000000000"
    unfolding go_rem_def q by simp
  show ?thesis using assms False by (simp add: q r Unix_def q2)
qed

text \<open>
  C8 (as stated, refuted). The instant \<open>2^63\<close> nanoseconds after the epoch is a
  \<open>uint64\<close> nanosecond count, yet encoding and decoding it yields an instant before
  the epoch: \<open>DecodeRLP\<close> reads the count as \<open>int64\<close>.
\<close>

theorem rlpTimestamp_roundtrip_counterexample:
  "wf_Time \<lparr>unix_sec = 9223372036, unix_nsec = 854775808\<rparr>
   \<and> 0 \<le> nanos \<lparr>unix_sec = 9223372036, unix_nsec = 854775808\<rparr>
   \<and> nanos \<lparr>unix_sec = 9223372036, unix_nsec = 854775808\<rparr> < 2 ^ 64
   \<and> rlpTimestamp_EncodeRLP \<lparr>unix_sec = 9223372036, unix_nsec = 854775808\<rparr>
        = 9223372036854775808
   \<and> rlpTimestamp_DecodeRLP
        (rlpTimestamp_EncodeRLP \<lparr>unix_sec = 9223372036, unix_nsec = 854775808\<rparr>)
        = \<lparr>unix_sec = - 9223372037, unix_nsec = 145224192\<rparr>
   \<and> rlpTimestamp_DecodeRLP
        (rlpTimestamp_EncodeRLP \<lparr>unix_sec = 9223372036, unix_nsec = 854775808\<rparr>)
        \<noteq> \<lparr>unix_sec = 9223372036, unix_nsec = 854775808\<rparr>"
  by (simp add: wf_Time_def nanos_def rlpTimestamp_DecodeRLP_def rlpTimestamp_EncodeRLP_def
        UnixNano_def Unix_def go_quot_def go_rem_def Let_def)

lemma roundtrip_within_int64:
  assumes "wf_Time t" and "- (2 ^ 63) \<le> nanos t" and "nanos t < 2 ^ 63"
  shows "rlpTimestamp_DecodeRLP (rlpTimestamp_EncodeRLP t) = t"
proof -
  have s: "sint (rlpTimestamp_EncodeRLP t) = unix_sec t * 1000000000 + unix_nsec t"
    using assms sint_word_of_int_int64 [of "nanos t"]
    by (simp add: rlpTimestamp_EncodeRLP_def UnixNano_def nanos_def)
  show ?thesis
  proof (cases "0 \<le> nanos t")
    case True
    then show ?thesis
      using assms decode_split_nonneg [of "unix_nsec t" "unix_sec t"]
      by (simp add: rlpTimestamp_DecodeRLP_def s wf_Time_def nanos_def)
  next
    case False
    then show ?thesis
      using assms decode_split_neg [of "unix_nsec t" "unix_sec t"]
      by (simp add: rlpTimestamp_DecodeRLP_def s wf_Time_def nanos_def)
  qed
qed

text \<open>Whatever is decoded is an instant whose nanosecond count fits in \<open>int64\<close>.\<close>

lemma nanos_Unix: "nanos (Unix s ns) = s * 1000000000 + ns"
  by (simp add: Unix_def nanos_def Let_def algebra_simps)

lemma nanos_DecodeRLP: "nanos (rlpTimestamp_DecodeRLP w) = sint w"
  by (simp add: rlpTimestamp_DecodeRLP_def Let_def nanos_Unix go_rem_def)

lemma sint_u64_bounds: "- (2 ^ 63) \<le> sint (w :: u64) \<and> sint w < 2 ^ 63"
  using sint_ge [of w] sint_lt [of w] by simp

text \<open>
  C8 (amended). RLP-encoding a timestamp and decoding it yields the same instant
  exactly when the nanosecond count of the instant since the epoch fits in \<open>int64\<close>
  (from \<open>-2^63\<close> up to \<open>2^63 - 1\<close>, hence for every count from 0 up to
  \<open>2^63 - 1\<close>); for these instants the encoding is that count as a \<open>uint64\<close> and
  decoding restores the second and nanosecond components exactly. Counts from \<open>2^63\<close>
  up to \<open>2^64 - 1\<close> do not round-trip.
\<close>

theorem rlpTimestamp_roundtrip:
  assumes "wf_Time t"
  shows "(rlpTimestamp_DecodeRLP (rlpTimestamp_EncodeRLP t) = t
            \<longleftrightarrow> - (2 ^ 63) \<le> nanos t \<and> nanos t < 2 ^ 63)
         \<and> (- (2 ^ 63) \<le> nanos t \<and> nanos t < 2 ^ 63
              \<longrightarrow> rlpTimestamp_EncodeRLP t = word_of_int (nanos t)
                  \<and> uint (rlpTimestamp_EncodeRLP t) = nanos t mod 2 ^ 64)
         \<and> (2 ^ 63 \<le> nanos t \<and> nanos t < 2 ^ 64
              \<longrightarrow> rlpTimestamp_DecodeRLP (rlpTimestamp_EncodeRLP t) \<noteq> t)"
proof -
  have enc: "rlpTimestamp_EncodeRLP t = word_of_int (nanos t)"
    by (simp add: rlpTimestamp_EncodeRLP_def UnixNano_def nanos_def)
  have enc_uint: "uint (rlpTimestamp_EncodeRLP t) = nanos t mod 2 ^ 64"
    unfolding enc by (simp add: uint_word_of_int)
  have inside: "rlpTimestamp_DecodeRLP (rlpTimestamp_EncodeRLP t) = t"
    if "- (2 ^ 63) \<le> nanos t" and "nanos t < 2 ^ 63"
    using roundtrip_within_int64 [OF assms that] .
  have outside: "- (2 ^ 63) \<le> nanos t \<and> nanos t < 2 ^ 63"
    if "rlpTimestamp_DecodeRLP (rlpTimestamp_EncodeRLP t) = t"
  proof -
    have "nanos t = sint (rlpTimestamp_EncodeRLP t)"
      using nanos_DecodeRLP [of "rlpTimestamp_EncodeRLP t"] that by simp
    then show ?thesis using sint_u64_bounds [of "rlpTimestamp_EncodeRLP t"] by simp
  qed
  have iff: "rlpTimestamp_DecodeRLP (rlpTimestamp_EncodeRLP t) = t
            \<longleftrightarrow> - (2 ^ 63) \<le> nanos t \<and> nanos t < 2 ^ 63"
    using inside outside by blast
  have upper: "2 ^ 63 \<le> nanos t \<and> nanos t < 2 ^ 64
              \<longrightarrow> rlpTimestamp_DecodeRLP (rlpTimestamp_EncodeRLP t) \<noteq> t"
    using outside by fastforce
  show ?thesis
    by (rule conjI [OF iff], rule conjI [OF _ upper], intro impI conjI, rule enc,
        rule enc_uint)
qed

theorem rlpTimestamp_roundtrip_witness:
  "wf_Time \<lparr>unix_sec = 1540000000, unix_nsec = 123456789\<rparr>
   \<and> - (2 ^ 63) \<le> nanos \<lparr>unix_sec = 1540000000, unix_nsec = 123456789\<rparr>
   \<and> nanos \<lparr>unix_sec = 1540000000, unix_nsec = 123456789\<rparr> < 2 ^ 63
   \<and> rlpTimestamp_EncodeRLP \<lparr>unix_sec = 1540000000, unix_nsec = 123456789\<rparr>
        = 1540000000123456789
   \<and> rlpTimestamp_DecodeRLP
        (rlpTimestamp_EncodeRLP \<lparr>unix_sec = 1540000000, unix_nsec = 123456789\<rparr>)
        = \<lparr>unix_sec = 1540000000, unix_nsec = 123456789\<rparr>
   \<and> wf_Time \<lparr>unix_sec = 18446744073, unix_nsec = 709551615\<rparr>
   \<and> nanos \<lparr>unix_sec = 18446744073, unix_nsec = 709551615\<rparr> = 2 ^ 64 - 1
   \<and> rlpTimestamp_DecodeRLP
        (rlpTimestamp_EncodeRLP \<lparr>unix_sec = 18446744073, unix_nsec = 709551615\<rparr>)
        \<noteq> \<lparr>unix_sec = 18446744073, unix_nsec = 709551615\<rparr>"
proof -
  have w: "wf_Time \<lparr>unix_sec = 1540000000, unix_nsec = 123456789\<rparr>"
    by (simp add: wf_Time_def)
  have w2: "wf_Time \<lparr>unix_sec = 18446744073, unix_nsec = 709551615\<rparr>"
    by (simp add: wf_Time_def)
  show ?thesis
    using w w2 rlpTimestamp_roundtrip [OF w] rlpTimestamp_roundtrip [OF w2]
    by (simp add: nanos_def rlpTimestamp_EncodeRLP_def UnixNano_def)
qed

section \<open>Properties of the position comparator\<close>

lemma IsSorted_down_iff:
  "IsSorted_down lt k \<longleftrightarrow> (\<forall>i<k. \<not> lt (Suc i) i)"
  by (induction k) (auto simp: less_Suc_eq)

lemma sort_IsSorted_adjacent:
  assumes "sort_IsSorted lt n" and "Suc i < n"
  shows "\<not> lt (Suc i) i"
  using assms by (cases n) (auto simp: sort_IsSorted_def IsSorted_down_iff)

lemma sorted_wrt_of_adjacent:
  assumes adj: "\<forall>i. Suc i < length xs \<longrightarrow> R (xs ! i) (xs ! Suc i)"
    and tr: "\<forall>a b c. R a b \<and> R b c \<longrightarrow> R a c"
  shows "i < j \<Longrightarrow> j < length xs \<Longrightarrow> R (xs ! i) (xs ! j)"
proof (induction j)
  case 0
  then show ?case by simp
next
  case (Suc j)
  show ?case
  proof (cases "i = j")
    case True
    with Suc.prems adj show ?thesis by simp
  next
    case False
    with Suc.prems have "i < j" "j < length xs" by simp_all
    then have "R (xs ! i) (xs ! j)" by (rule Suc.IH)
    moreover have "R (xs ! j) (xs ! Suc j)" using adj Suc.prems by simp
    ultimately show ?thesis using tr by blast
  qed
qed

text \<open>
  C9 (as stated, refuted). Whatever \<open>Position.Newer\<close> computes: in no slice of two or
  more blocks that is sorted under \<open>BlocksByPosition.Less\<close> is the first block's
  position newer than the second block's, although the claim says so for every pair
  of indices \<open>i < j\<close>. \<open>sort.IsSorted\<close> asks that \<open>Less(1, 0)\<close> be false, and
  \<open>Less(1, 0)\<close> is \<open>bs[0].Position.Newer(bs[1].Position)\<close>.
\<close>

theorem BlocksByPosition_descending_counterexample:
  "\<not> (\<exists>newer bs. 2 \<le> length bs
         \<and> sort_IsSorted (BlocksByPosition_Less newer bs) (length bs)
         \<and> newer (Position (bs ! 0)) (Position (bs ! 1)))"
proof
  assume "\<exists>newer bs. 2 \<le> length bs
         \<and> sort_IsSorted (BlocksByPosition_Less newer bs) (length bs)
         \<and> newer (Position (bs ! 0)) (Position (bs ! 1))"
  then obtain newer bs where
    l: "2 \<le> length bs"
    and s: "sort_IsSorted (BlocksByPosition_Less newer bs) (length bs)"
    and n: "newer (Position (bs ! 0)) (Position (bs ! 1))"
    by blast
  from l have "Suc 0 < length bs" by simp
  from sort_IsSorted_adjacent [OF s this] n show False
    by (simp add: BlocksByPosition_Less_def)
qed

text \<open>
  C9 (amended). Sorting a slice of blocks with the \<open>BlocksByPosition\<close> comparator
  orders the blocks ascending by position (oldest position first): in the sorted
  result no block's position is newer than the position of the block after it; and,
  when "not newer" is transitive, for every pair of indices \<open>i < j\<close> block \<open>i\<close>'s
  position is not newer than block \<open>j\<close>'s position.
\<close>

theorem BlocksByPosition_sorts_ascending:
  assumes "sort_IsSorted (BlocksByPosition_Less newer bs) (length bs)"
  shows "(\<forall>i. Suc i < length bs \<longrightarrow>
            \<not> newer (Position (bs ! i)) (Position (bs ! Suc i)))
         \<and> ((\<forall>p q r. \<not> newer p q \<and> \<not> newer q r \<longrightarrow> \<not> newer p r) \<longrightarrow>
              (\<forall>i j. i < j \<and> j < length bs \<longrightarrow>
                 \<not> newer (Position (bs ! i)) (Position (bs ! j))))"
proof -
  have adj: "\<forall>i. Suc i < length bs \<longrightarrow>
               \<not> newer (Position (bs ! i)) (Position (bs ! Suc i))"
    using sort_IsSorted_adjacent [OF assms] by (simp add: BlocksByPosition_Less_def)
  have "\<not> newer (Position (bs ! i)) (Position (bs ! j))"
    if tr: "\<forall>p q r. \<not> newer p q \<and> \<not> newer q r \<longrightarrow> \<not> newer p r"
      and ij: "i < j" "j < length bs" for i j
  proof -
    have "\<forall>a b c. \<not> newer (Position a) (Position b) \<and> \<not> newer (Position b) (Position c)
            \<longrightarrow> \<not> newer (Position a) (Position c)"
      using tr by blast
    from sorted_wrt_of_adjacent
           [where R = "\<lambda>a b. \<not> newer (Position a) (Position b)", OF adj this ij]
    show ?thesis .
  qed
  with adj show ?thesis by blast
qed

theorem BlocksByPosition_sorts_ascending_witness:
  "sort_IsSorted
     (BlocksByPosition_Less example_newer [block_at 0 7, block_at 1 0, block_at 1 3]) 3
   \<and> \<not> example_newer (Position (block_at 0 7)) (Position (block_at 1 0))
   \<and> \<not> example_newer (Position (block_at 1 0)) (Position (block_at 1 3))
   \<and> \<not> example_newer (Position (block_at 0 7)) (Position (block_at 1 3))"
proof -
  let ?bs = "[block_at 0 7, block_at 1 0, block_at 1 3]"
  have s: "sort_IsSorted (BlocksByPosition_Less example_newer ?bs) (length ?bs)"
    by (simp add: sort_IsSorted_def BlocksByPosition_Less_def example_newer_def block_at_def
          numeral_2_eq_2)
  have tr: "\<forall>p q r. \<not> example_newer p q \<and> \<not> example_newer q r \<longrightarrow> \<not> example_newer p r"
    unfolding example_newer_def
    by (intro allI impI) (metis (no_types, opaque_lifting) not_less_iff_gr_or_eq less_trans)
  note th = BlocksByPosition_sorts_ascending [OF s]
  have a0: "\<not> example_newer (Position (?bs ! 0)) (Position (?bs ! Suc 0))"
    using conjunct1 [OF th, THEN spec, of 0] by simp
  have a1: "\<not> example_newer (Position (?bs ! Suc 0)) (Position (?bs ! Suc (Suc 0)))"
    using conjunct1 [OF th, THEN spec, of "Suc 0"] by simp
  have a2: "\<not> example_newer (Position (?bs ! 0)) (Position (?bs ! 2))"
    using conjunct2 [OF th, THEN mp, OF tr, THEN spec, THEN spec, of 0 2] by simp
  from s a0 a1 a2 show ?thesis by (simp add: numeral_3_eq_3)
qed

section \<open>Properties of the application core\<close>

lemmas app_defs =
  VerifyBlock_def verifyWitness_def verifyPayload_def previousBlockMissing_def
  roundReshaping_def validateNonce_def addrBelongsToChain_def expectedNonce_def
  pendingBalance_def tx_Cost_def preparePayload_def PreparePayload_def
  example_app_def example_block_def transfer_def nonces_of_def Let_def


subsection \<open>Errors of PreparePayload\<close>

lemma preparePayload_error_payload:
  "preparePayload d ctxDone pos = Inr (payload, Some e) \<Longrightarrow> payload = []"
  by (auto simp: preparePayload_def split: if_splits sum.splits bool.splits option.splits)

text \<open>
  C1 (as stated, refuted). For a position at height 1 on a chain without a confirmed
  block, the inner \<open>preparePayload\<close> returns the error "previous block not exists";
  when the worker has finished before the caller polls \<open>errCh\<close>, \<open>PreparePayload\<close>
  returns that error to its caller.
\<close>

theorem PreparePayload_error_counterexample:
  "PreparePayload (example_app 0 [transfer 0, transfer 1])
     \<lparr>softDone = (\<lambda>k. False), errReady = True, payloadReady = True\<rparr>
     \<lparr>ChainID = 0, Round = 0, Height = 1\<rparr>
   = Inr ([], Some ErrPreviousBlockNotExists)"
  by (simp add: app_defs)

text \<open>
  C1 (amended). \<open>PreparePayload\<close> returns a non-nil error only when the inner
  \<open>preparePayload\<close> returned that error and the error was in \<open>errCh\<close> when the caller
  polled it, and then the payload is nil. Deadline expiry by itself never yields an
  error: when the error has not been delivered the result is a (possibly empty) payload
  with a nil error, when nothing has been delivered it is the empty payload with a nil
  error, and when the soft deadline has fired before the worker starts it is the empty
  payload with a nil error. (A panic of the worker is not an error return.)
\<close>

theorem PreparePayload_errors:
  "(\<forall>payload e. PreparePayload d sched pos = Inr (payload, Some e) \<longrightarrow>
       payload = [] \<and> errReady sched
       \<and> preparePayload d (softDone sched) pos = Inr ([], Some e))
   \<and> (\<not> errReady sched \<longrightarrow>
        (\<exists>payload. PreparePayload d sched pos = Inr (payload, None))
        \<or> (\<exists>p. PreparePayload d sched pos = Inl p))
   \<and> (\<not> errReady sched \<and> \<not> payloadReady sched \<longrightarrow>
        PreparePayload d sched pos = Inr ([], None)
        \<or> (\<exists>p. PreparePayload d sched pos = Inl p))
   \<and> (softDone sched 0 \<longrightarrow> PreparePayload d sched pos = Inr ([], None))"
proof -
  have a: "\<forall>payload e. PreparePayload d sched pos = Inr (payload, Some e) \<longrightarrow>
       payload = [] \<and> errReady sched
       \<and> preparePayload d (softDone sched) pos = Inr ([], Some e)"
    using preparePayload_error_payload [of d "softDone sched" pos]
    by (auto simp: PreparePayload_def split: sum.splits if_splits)
  have b: "\<not> errReady sched \<longrightarrow>
        (\<exists>payload. PreparePayload d sched pos = Inr (payload, None))
        \<or> (\<exists>p. PreparePayload d sched pos = Inl p)"
    by (auto simp: PreparePayload_def split: sum.splits)
  have c: "\<not> errReady sched \<and> \<not> payloadReady sched \<longrightarrow>
        PreparePayload d sched pos = Inr ([], None)
        \<or> (\<exists>p. PreparePayload d sched pos = Inl p)"
    by (auto simp: PreparePayload_def split: sum.splits)
  have e: "softDone sched 0 \<longrightarrow> PreparePayload d sched pos = Inr ([], None)"
    by (simp add: PreparePayload_def preparePayload_def)
  from a b c e show ?thesis by blast
qed


theorem PreparePayload_errors_witness:
  "PreparePayload (example_app 0 [transfer 0, transfer 1])
     \<lparr>softDone = (\<lambda>k. False), errReady = False, payloadReady = False\<rparr>
     \<lparr>ChainID = 0, Round = 0, Height = 1\<rparr> = Inr ([], None)
   \<and> PreparePayload (example_app 0 [transfer 0, transfer 1])
     \<lparr>softDone = (\<lambda>k. True), errReady = True, payloadReady = True\<rparr>
     \<lparr>ChainID = 0, Round = 0, Height = 1\<rparr> = Inr ([], None)"
  using PreparePayload_errors [of "example_app 0 [transfer 0, transfer 1]"
      "\<lparr>softDone = (\<lambda>k. False), errReady = False, payloadReady = False\<rparr>"
      "\<lparr>ChainID = 0, Round = 0, Height = 1\<rparr>"]
    PreparePayload_errors [of "example_app 0 [transfer 0, transfer 1]"
      "\<lparr>softDone = (\<lambda>k. True), errReady = True, payloadReady = True\<rparr>"
      "\<lparr>ChainID = 0, Round = 0, Height = 1\<rparr>"]
  by (simp add: app_defs)

subsection \<open>The round-reshape gate\<close>

text \<open>
  C2. For a position of round \<open>r > 0\<close> with \<open>num_chains(r) \<noteq> num_chains(r-1)\<close> and a
  last delivered round below \<open>r\<close>: \<open>PreparePayload\<close> returns the empty payload and no
  error, under every schedule; and \<open>VerifyBlock\<close> of a block at that position which
  passes the witness checks and the height check returns OK when the payload is empty
  and Invalid when it is not.
\<close>

theorem reshape_gate:
  assumes "Round pos > 0"
    and "gov_NumChains d (Round pos) \<noteq> gov_NumChains d (Round pos - 1)"
    and "ReadLastRoundNumber d = Some deliveredRound"
    and "deliveredRound < Round pos"
  shows "PreparePayload d sched pos = Inr ([], None)
         \<and> (Position block = pos \<and> verifyWitness d block = None
              \<and> \<not> previousBlockMissing d pos
            \<longrightarrow> VerifyBlock d block =
                  Inr (if Payload block = [] then VerifyOK else VerifyInvalidBlock))"
proof -
  have g: "roundReshaping d pos = Inr True"
    using assms by (auto simp: roundReshaping_def Let_def)
  then show ?thesis
    by (auto simp: PreparePayload_def preparePayload_def VerifyBlock_def)
qed


theorem reshape_gate_witness:
  "Round \<lparr>ChainID = 0, Round = 1, Height = 0\<rparr> > 0
   \<and> gov_NumChains (example_app 0 [transfer 0]) 1 \<noteq> gov_NumChains (example_app 0 [transfer 0]) 0
   \<and> ReadLastRoundNumber (example_app 0 [transfer 0]) = Some 0
   \<and> verifyWitness (example_app 0 [transfer 0]) (example_block 1 0 [1]) = None
   \<and> \<not> previousBlockMissing (example_app 0 [transfer 0]) \<lparr>ChainID = 0, Round = 1, Height = 0\<rparr>
   \<and> PreparePayload (example_app 0 [transfer 0])
        \<lparr>softDone = (\<lambda>k. False), errReady = True, payloadReady = True\<rparr>
        \<lparr>ChainID = 0, Round = 1, Height = 0\<rparr> = Inr ([], None)
   \<and> VerifyBlock (example_app 0 [transfer 0]) (example_block 1 0 [1]) = Inr VerifyInvalidBlock
   \<and> VerifyBlock (example_app 0 [transfer 0]) (example_block 1 0 []) = Inr VerifyOK"
proof -
  have a: "Round \<lparr>ChainID = 0, Round = 1, Height = 0\<rparr> > 0" by simp
  have b: "gov_NumChains (example_app 0 [transfer 0]) (Round \<lparr>ChainID = 0, Round = 1, Height = 0\<rparr>)
           \<noteq> gov_NumChains (example_app 0 [transfer 0])
               (Round \<lparr>ChainID = 0, Round = 1, Height = 0\<rparr> - 1)"
    by (simp add: example_app_def)
  have c: "ReadLastRoundNumber (example_app 0 [transfer 0]) = Some 0"
    by (simp add: example_app_def)
  have e: "(0::u64) < Round \<lparr>ChainID = 0, Round = 1, Height = 0\<rparr>" by simp
  show ?thesis
    using reshape_gate [OF a b c e,
        of "\<lparr>softDone = (\<lambda>k. False), errReady = True, payloadReady = True\<rparr>"
           "example_block 1 0 [1]"]
      reshape_gate [OF a b c e,
        of "\<lparr>softDone = (\<lambda>k. False), errReady = True, payloadReady = True\<rparr>"
           "example_block 1 0 []"]
    by (simp add: app_defs)
qed

subsection \<open>Nonces within a verified block\<close>

lemma nonces_of_Cons:
  "nonces_of s (tx # txs) =
     (if tx_From tx = Some s then tx_Nonce tx # nonces_of s txs else nonces_of s txs)"
  by (simp add: nonces_of_def)

lemma validateNonce_loop_runs:
  assumes "validateNonce_loop txs firstNonces lastNonce = Inr fn"
    and "\<forall>a. (map_of firstNonces a = None) \<longleftrightarrow> (lastNonce a = None)"
  shows "case map_of firstNonces s of
           Some f \<Rightarrow>
             map_of fn s = Some f \<and>
             nonces_of s txs =
               nonce_run ((case lastNonce s of None \<Rightarrow> 0 | Some n \<Rightarrow> n) + 1) (length (nonces_of s txs))
         | None \<Rightarrow>
             (nonces_of s txs = [] \<and> map_of fn s = None) \<or>
             (\<exists>f. map_of fn s = Some f \<and>
                  nonces_of s txs = nonce_run f (length (nonces_of s txs)))"
  using assms
proof (induction txs arbitrary: firstNonces lastNonce)
  case Nil
  then show ?case by (auto simp: nonces_of_def split: option.splits)
next
  case (Cons tx txs)
  from Cons.prems(1) obtain a where a: "tx_From tx = Some a"
    by (auto split: option.splits)
  show ?case
  proof (cases "map_of firstNonces a")
    case None
    let ?firstNonces = "firstNonces @ [(a, tx_Nonce tx)]"
    let ?lastNonce = "lastNonce(a \<mapsto> tx_Nonce tx)"
    from Cons.prems(1) a None
    have rec: "validateNonce_loop txs ?firstNonces ?lastNonce = Inr fn" by simp
    have inv: "\<forall>b. (map_of ?firstNonces b = None) \<longleftrightarrow> (?lastNonce b = None)"
    proof
      fix b
      show "(map_of ?firstNonces b = None) \<longleftrightarrow> (?lastNonce b = None)"
      proof (cases "b = a")
        case True
        then show ?thesis using None by (simp add: map_add_def)
      next
        case False
        have "map_of ?firstNonces b = map_of firstNonces b"
          using False by (simp add: map_add_def split: option.splits)
        then show ?thesis using False Cons.prems(2) by simp
      qed
    qed
    note IH = Cons.IH [OF rec inv]
    show ?thesis
    proof (cases "s = a")
      case True
      have "map_of ?firstNonces a = Some (tx_Nonce tx)"
        using None by (simp add: map_add_def)
      with IH True have
        "map_of fn s = Some (tx_Nonce tx) \<and>
         nonces_of s txs = nonce_run (tx_Nonce tx + 1) (length (nonces_of s txs))"
        by simp
      then show ?thesis using True None a by (simp add: nonces_of_Cons)
    next
      case False
      have "map_of ?firstNonces s = map_of firstNonces s"
        using False by (simp add: map_add_def split: option.splits)
      with IH False a show ?thesis
        by (simp add: nonces_of_Cons split: option.splits)
    qed
  next
    case (Some f)
    let ?lastNonce = "lastNonce(a \<mapsto> tx_Nonce tx)"
    from Cons.prems(1) a Some
    have nonce: "(case lastNonce a of None \<Rightarrow> 0 | Some n \<Rightarrow> n) + 1 = tx_Nonce tx"
      and rec: "validateNonce_loop txs firstNonces ?lastNonce = Inr fn"
      by (auto split: if_splits)
    have la: "lastNonce a \<noteq> None"
      using Cons.prems(2) Some by (metis option.distinct(1))
    have inv: "\<forall>b. (map_of firstNonces b = None) \<longleftrightarrow> (?lastNonce b = None)"
      using Cons.prems(2) la by auto
    note IH = Cons.IH [OF rec inv]
    show ?thesis
    proof (cases "s = a")
      case True
      with IH Some have
        "map_of fn s = Some f \<and>
         nonces_of s txs = nonce_run (tx_Nonce tx + 1) (length (nonces_of s txs))"
        by simp
      then show ?thesis using True Some a nonce by (simp add: nonces_of_Cons)
    next
      case False
      with IH a show ?thesis
        by (simp add: nonces_of_Cons split: option.splits)
    qed
  qed
qed

lemma validateNonce_runs:
  assumes "validateNonce txs = Inr fn" and "nonces_of s txs \<noteq> []"
  shows "\<exists>f. (s, f) \<in> set fn \<and> nonces_of s txs = nonce_run f (length (nonces_of s txs))"
  using validateNonce_loop_runs [of txs "[]" Map.empty fn s] assms
  by (auto simp: validateNonce_def dest: map_of_SomeD)

lemma verifyAddresses_expected:
  "verifyAddresses d st pos fn = Inr True \<Longrightarrow> (a, f) \<in> set fn \<Longrightarrow>
   expectedNonce d st (ChainID pos) a = f"
  by (induction d st pos fn rule: verifyAddresses.induct)
     (auto split: sum.splits bool.splits if_splits)

lemma verifyWitness_not_OK: "verifyWitness d block \<noteq> Some VerifyOK"
  by (simp add: verifyWitness_def split: option.splits)

lemma VerifyBlock_OK_payload:
  assumes "VerifyBlock d block = Inr VerifyOK" and "Payload block \<noteq> []"
  shows "verifyPayload d block = Inr VerifyOK"
  using assms verifyWitness_not_OK [of d block]
  by (auto simp: VerifyBlock_def split: option.splits if_splits sum.splits bool.splits)

lemma verifyPayload_OK_parts:
  assumes "verifyPayload d block = Inr VerifyOK" and "Payload block \<noteq> []"
  shows "\<exists>root st txs fn.
           chainRoot d (ChainID (Position block)) = Some root \<and> StateAt d root = Some st \<and>
           rlp_decode_txs d (Payload block) = Some txs \<and>
           validateNonce txs = Inr fn \<and>
           verifyAddresses d st (Position block) fn = Inr True \<and>
           verifyTransactions txs
             (map_of (map (\<lambda>(address, _).
                (address, pendingBalance d st (ChainID (Position block)) address)) fn))
             0 (uint (blk_GasLimit (CurrentBlock d))) = Inr VerifyOK"
  using assms
  by (auto simp: verifyPayload_def split: option.splits if_splits sum.splits bool.splits)

lemma nonce_run_unat:
  "unat n + k \<le> 2 ^ 64 \<Longrightarrow> map unat (nonce_run n k) = [unat n..<unat n + k]"
proof (induction k arbitrary: n)
  case 0
  then show ?case by simp
next
  case (Suc k)
  show ?case
  proof (cases k)
    case 0
    then show ?thesis by simp
  next
    case (Suc j)
    with Suc.prems have lt: "unat n + 1 < 2 ^ 64" by simp
    then have u: "unat (n + 1) = unat n + 1"
      by (simp add: unat_word_ariths)
    with Suc.prems have "unat (n + 1) + k \<le> 2 ^ 64" by simp
    from Suc.IH [OF this] u show ?thesis
      by (simp add: upt_rec [of "unat n"])
  qed
qed

text \<open>
  C3, evaluated on the code. A sender whose expected next nonce is \<open>2^64 - 1\<close> places
  the nonces \<open>2^64 - 1\<close> and \<open>0\<close> in one payload: \<open>validateNonce\<close> compares
  \<open>addressNonce[from]+1\<close>, which wraps to 0, and \<open>VerifyBlock\<close> returns OK. The nonces
  are not the ascending run that the claim, and the source's own comments ("check if
  nonce is in order", "strictly increasing"), state.
\<close>

theorem VerifyBlock_accepts_wrapped_nonces:
  "VerifyBlock (example_app 18446744073709551615 [transfer 18446744073709551615, transfer 0])
     (example_block 0 0 [1]) = Inr VerifyOK
   \<and> Payload (example_block 0 0 [1]) \<noteq> []
   \<and> rlp_decode_txs
        (example_app 18446744073709551615 [transfer 18446744073709551615, transfer 0])
        (Payload (example_block 0 0 [1]))
      = Some [transfer 18446744073709551615, transfer 0]
   \<and> expectedNonce
        (example_app 18446744073709551615 [transfer 18446744073709551615, transfer 0])
        \<lparr>GetBalance = (\<lambda>a. 1000000), GetNonce = (\<lambda>a. 18446744073709551615)\<rparr> 0 4
      = 18446744073709551615
   \<and> map unat (nonces_of 4 [transfer 18446744073709551615, transfer 0])
      = [18446744073709551615, 0]"
  by (simp add: app_defs)

text \<open>
  Away from that wrap the code does what the claim says: in a block that verifies OK
  with a non-empty payload, the nonces of every sender are the run that starts at the
  sender's expected next nonce, in \<open>uint64\<close> arithmetic, and the run is ascending and
  contiguous as integers whenever it does not pass \<open>2^64 - 1\<close>.
\<close>

lemma VerifyBlock_nonce_runs:
  assumes "VerifyBlock d block = Inr VerifyOK" and "Payload block \<noteq> []"
  shows "\<exists>root st txs.
           chainRoot d (ChainID (Position block)) = Some root \<and> StateAt d root = Some st \<and>
           rlp_decode_txs d (Payload block) = Some txs \<and>
           (\<forall>s. Some s \<in> tx_From ` set txs \<longrightarrow>
              nonces_of s txs =
                nonce_run (expectedNonce d st (ChainID (Position block)) s)
                  (length (nonces_of s txs))
              \<and> (unat (expectedNonce d st (ChainID (Position block)) s)
                    + length (nonces_of s txs) \<le> 2 ^ 64 \<longrightarrow>
                  map unat (nonces_of s txs) =
                    [unat (expectedNonce d st (ChainID (Position block)) s)
                     ..<unat (expectedNonce d st (ChainID (Position block)) s)
                        + length (nonces_of s txs)]))"
proof -
  from VerifyBlock_OK_payload [OF assms] verifyPayload_OK_parts assms(2)
  obtain root st txs fn where
    p: "chainRoot d (ChainID (Position block)) = Some root" "StateAt d root = Some st"
       "rlp_decode_txs d (Payload block) = Some txs"
       "validateNonce txs = Inr fn"
       "verifyAddresses d st (Position block) fn = Inr True"
    by blast
  let ?n = "\<lambda>s. expectedNonce d st (ChainID (Position block)) s"
  have run: "nonces_of s txs = nonce_run (?n s) (length (nonces_of s txs))"
    if "Some s \<in> tx_From ` set txs" for s
  proof -
    from that have "nonces_of s txs \<noteq> []"
      by (auto simp: nonces_of_def filter_empty_conv)
    from validateNonce_runs [OF p(4) this] obtain f where
      f: "(s, f) \<in> set fn" "nonces_of s txs = nonce_run f (length (nonces_of s txs))"
      by blast
    from verifyAddresses_expected [OF p(5) f(1)] f(2) show ?thesis by simp
  qed
  have asc: "map unat (nonces_of s txs) = [unat (?n s)..<unat (?n s) + length (nonces_of s txs)]"
    if "Some s \<in> tx_From ` set txs"
      and "unat (?n s) + length (nonces_of s txs) \<le> 2 ^ 64" for s
    using nonce_run_unat [OF that(2)] run [OF that(1)] by simp
  from p run asc show ?thesis by blast
qed

lemma VerifyBlock_nonce_runs_example:
  "VerifyBlock (example_app 7 [transfer 7, transfer 8]) (example_block 0 0 [1]) = Inr VerifyOK
   \<and> Payload (example_block 0 0 [1]) \<noteq> []
   \<and> Some 4 \<in> tx_From ` set [transfer 7, transfer 8]
   \<and> nonces_of 4 [transfer 7, transfer 8] = [7, 8]
   \<and> nonce_run 7 2 = [7, 8]"
proof -
  have ok: "VerifyBlock (example_app 7 [transfer 7, transfer 8]) (example_block 0 0 [1])
            = Inr VerifyOK"
    by (simp add: app_defs)
  have ne: "Payload (example_block 0 0 [1]) \<noteq> []"
    by (simp add: example_block_def)
  show ?thesis
    using ok ne VerifyBlock_nonce_runs [OF ok ne]
    by (simp add: app_defs numeral_2_eq_2)
qed

subsection \<open>The block gas limit\<close>

lemma total_gas_nonneg: "0 \<le> total_gas txs"
  by (auto simp: total_gas_def intro!: sum_list_nonneg)

lemma verifyTransactions_limit:
  assumes "verifyTransactions txs bals used L' = Inr VerifyOK" and "used \<le> L"
  shows "verifyTransactions txs bals used L =
           Inr (if used + total_gas txs > L then VerifyInvalidBlock else VerifyOK)"
  using assms
proof (induction txs arbitrary: bals used)
  case Nil
  then show ?case by (simp add: total_gas_def)
next
  case (Cons tx txs)
  from Cons.prems(1) obtain a intr b where
    p: "tx_From tx = Some a" "tx_IntrinsicGas tx = Some intr" "\<not> tx_Gas tx < intr"
       "bals a = Some b" "\<not> b - tx_Cost tx < 0"
       "\<not> used + uint (tx_Gas tx) > L'"
       "verifyTransactions txs (bals(a \<mapsto> b - tx_Cost tx)) (used + uint (tx_Gas tx)) L'
          = Inr VerifyOK"
    by (auto simp: Let_def split: option.splits if_splits)
  have tg: "total_gas (tx # txs) = uint (tx_Gas tx) + total_gas txs"
    by (simp add: total_gas_def)
  show ?case
  proof (cases "used + uint (tx_Gas tx) > L")
    case True
    then have "used + total_gas (tx # txs) > L"
      using total_gas_nonneg [of txs] by (simp add: tg)
    with True p show ?thesis by (simp add: Let_def)
  next
    case False
    then have le: "used + uint (tx_Gas tx) \<le> L" by simp
    have step: "verifyTransactions (tx # txs) bals used L =
                  verifyTransactions txs (bals(a \<mapsto> b - tx_Cost tx))
                    (used + uint (tx_Gas tx)) L"
      using False p(1-5) by (simp add: Let_def)
    show ?thesis
      unfolding step Cons.IH [OF p(7) le] tg by (simp add: add.assoc)
  qed
qed

lemma verifyAddresses_CurrentBlock [simp]:
  "verifyAddresses (d\<lparr>CurrentBlock := b\<rparr>) st pos fn = verifyAddresses d st pos fn"
  by (induction d st pos fn rule: verifyAddresses.induct)
     (simp_all add: expectedNonce_def split: sum.splits bool.splits)

lemma verifyPayload_limit:
  assumes "verifyPayload (d\<lparr>CurrentBlock := (CurrentBlock d)\<lparr>blk_GasLimit := L'\<rparr>\<rparr>) block
             = Inr VerifyOK"
    and "Payload block \<noteq> []"
  shows "\<exists>txs. rlp_decode_txs d (Payload block) = Some txs \<and>
           verifyPayload d block =
             Inr (if total_gas txs > uint (blk_GasLimit (CurrentBlock d))
                  then VerifyInvalidBlock else VerifyOK)"
proof -
  let ?d = "d\<lparr>CurrentBlock := (CurrentBlock d)\<lparr>blk_GasLimit := L'\<rparr>\<rparr>"
  from verifyPayload_OK_parts [OF assms] obtain root st txs fn where
    p: "chainRoot d (ChainID (Position block)) = Some root" "StateAt d root = Some st"
       "rlp_decode_txs d (Payload block) = Some txs"
       "validateNonce txs = Inr fn"
       "verifyAddresses d st (Position block) fn = Inr True"
       "verifyTransactions txs
          (map_of (map (\<lambda>(address, _).
             (address, pendingBalance d st (ChainID (Position block)) address)) fn))
          0 (uint L') = Inr VerifyOK"
    by (auto simp: pendingBalance_def)
  have nf: "\<not> (\<exists>tx\<in>set txs. tx_From tx = None)"
    using assms p(1-3) by (auto simp: verifyPayload_def split: if_splits)
  have "verifyTransactions txs
          (map_of (map (\<lambda>(address, _).
             (address, pendingBalance d st (ChainID (Position block)) address)) fn))
          0 (uint (blk_GasLimit (CurrentBlock d)))
        = Inr (if 0 + total_gas txs > uint (blk_GasLimit (CurrentBlock d))
               then VerifyInvalidBlock else VerifyOK)"
    by (rule verifyTransactions_limit [OF p(6)]) simp
  then have "verifyPayload d block =
               Inr (if total_gas txs > uint (blk_GasLimit (CurrentBlock d))
                    then VerifyInvalidBlock else VerifyOK)"
    using p nf assms(2) by (simp add: verifyPayload_def)
  with p(3) show ?thesis by blast
qed

text \<open>
  What the code compares with: when the block verifies under some gas limit of the
  head block, \<open>VerifyBlock\<close> returns Invalid exactly when the sum of \<open>tx.gas\<close> over the
  payload exceeds the gas limit of the current head block
  (\<open>blockchain.CurrentBlock().GasLimit()\<close>), and OK otherwise. Governance at the
  block's round is not consulted.
\<close>

lemma VerifyBlock_compares_head_limit:
  assumes "VerifyBlock (d\<lparr>CurrentBlock := (CurrentBlock d)\<lparr>blk_GasLimit := L'\<rparr>\<rparr>) block
             = Inr VerifyOK"
    and "Payload block \<noteq> []"
  shows "\<exists>txs. rlp_decode_txs d (Payload block) = Some txs \<and>
           VerifyBlock d block =
             Inr (if total_gas txs > uint (blk_GasLimit (CurrentBlock d))
                  then VerifyInvalidBlock else VerifyOK)"
proof -
  let ?d = "d\<lparr>CurrentBlock := (CurrentBlock d)\<lparr>blk_GasLimit := L'\<rparr>\<rparr>"
  have w: "verifyWitness ?d block = verifyWitness d block"
    by (simp add: verifyWitness_def cong: option.case_cong if_cong)
  have h: "previousBlockMissing ?d (Position block) = previousBlockMissing d (Position block)"
    by (simp add: previousBlockMissing_def cong: option.case_cong)
  have r: "roundReshaping ?d (Position block) = roundReshaping d (Position block)"
    by (simp add: roundReshaping_def cong: option.case_cong if_cong)
  from assms have early:
    "verifyWitness d block = None" "\<not> previousBlockMissing d (Position block)"
    "roundReshaping d (Position block) = Inr False"
    using verifyWitness_not_OK [of ?d block]
    by (auto simp: VerifyBlock_def w h r split: option.splits if_splits sum.splits bool.splits)
  have "verifyPayload ?d block = Inr VerifyOK"
    by (rule VerifyBlock_OK_payload [OF assms])
  from verifyPayload_limit [OF this assms(2)] early show ?thesis
    by (simp add: VerifyBlock_def)
qed


text \<open>
  C4, evaluated on the code. Governance changes the block gas limit between round 0
  and round 1; the head block was delivered in round 0 and carries round 0's limit. A
  block of round 1 holds three transfers, 63000 gas in all, and passes every other
  check. Where governance configures 50000 for round 1 (and 100000 for round 0),
  \<open>VerifyBlock\<close> returns OK although the payload exceeds the limit of the block's round,
  the limit that \<open>BlockDelivered\<close> stamps on this very block. Where governance
  configures 100000 for round 1 (and 50000 for round 0), \<open>VerifyBlock\<close> returns Invalid
  although the payload is within the limit of the block's round; raising only the head
  block's limit makes it OK.
\<close>

theorem VerifyBlock_ignores_round_gas_limit:
  "total_gas [transfer 0, transfer 1, transfer 2] = 63000
   \<and> blk_GasLimit (CurrentBlock (staged_app 100000 50000 [transfer 0, transfer 1, transfer 2]))
       = gov_BlockGasLimit (staged_app 100000 50000 [transfer 0, transfer 1, transfer 2]) 0
   \<and> deliveredGasLimit (staged_app 100000 50000 [transfer 0, transfer 1, transfer 2])
        (example_block 1 6 [1]) = 50000
   \<and> VerifyBlock (staged_app 100000 50000 [transfer 0, transfer 1, transfer 2])
        (example_block 1 6 [1]) = Inr VerifyOK
   \<and> blk_GasLimit (CurrentBlock (staged_app 50000 100000 [transfer 0, transfer 1, transfer 2]))
       = gov_BlockGasLimit (staged_app 50000 100000 [transfer 0, transfer 1, transfer 2]) 0
   \<and> deliveredGasLimit (staged_app 50000 100000 [transfer 0, transfer 1, transfer 2])
        (example_block 1 6 [1]) = 100000
   \<and> VerifyBlock (staged_app 50000 100000 [transfer 0, transfer 1, transfer 2])
        (example_block 1 6 [1]) = Inr VerifyInvalidBlock
   \<and> VerifyBlock
        ((staged_app 50000 100000 [transfer 0, transfer 1, transfer 2])
           \<lparr>CurrentBlock :=
              (CurrentBlock (staged_app 50000 100000 [transfer 0, transfer 1, transfer 2]))
                \<lparr>blk_GasLimit := 100000\<rparr>\<rparr>)
        (example_block 1 6 [1]) = Inr VerifyOK"
  by (simp add: app_defs staged_app_def deliveredGasLimit_def total_gas_def)

section \<open>Properties of the peer-set topology\<close>

lemmas topo_defs =
  topo_run_def BuildConnection_def ForgetConnection_def forgetConnection_def
  BuildNotaryConn_def ForgetNotaryConn_def forgetNotaryConn_def BuildDKGConn_def
  ForgetDKGConn_def forgetDKGConn_def build_notary_chain_def forget_notary_chain_def
  build_notary_conn_chain_def forget_notary_conn_chain_def addDirectPeer_def
  removeDirectPeer_def addLabel_def removeLabel_def AddGroup_def RemoveGroup_def
  labels_of_def peers_of_def pks_or_nil_def chain_ids_def newPeerSet_def example_env_def
  Let_def

subsection \<open>The label maps\<close>

lemma fold_preserves:
  assumes "\<And>x s. P s \<Longrightarrow> P (f x s)" and "P s"
  shows "P (fold f xs s)"
  using assms(2) by (induction xs arbitrary: s) (auto intro: assms(1))

lemma labels_of_addLabel [simp]:
  "labels_of (addLabel n l ps) p = (if p = n then insert l (labels_of ps n) else labels_of ps p)"
  by (simp add: labels_of_def addLabel_def)

lemma peers_of_addLabel [simp]:
  "peers_of (addLabel n l ps) k = (if k = l then insert n (peers_of ps l) else peers_of ps k)"
  by (simp add: peers_of_def addLabel_def)

lemma labels_of_removeLabel [simp]:
  "labels_of (removeLabel n l ps) p = (if p = n then labels_of ps n - {l} else labels_of ps p)"
  by (auto simp: labels_of_def removeLabel_def Let_def split: option.splits)

lemma peers_of_removeLabel [simp]:
  "peers_of (removeLabel n l ps) k = (if k = l then peers_of ps l - {n} else peers_of ps k)"
  by (auto simp: peers_of_def removeLabel_def Let_def split: option.splits)

lemma labels_inverse_newPeerSet: "labels_inverse newPeerSet"
  by (simp add: labels_inverse_def newPeerSet_def labels_of_def peers_of_def)

lemma labels_inverse_addLabel:
  assumes "labels_inverse ps" shows "labels_inverse (addLabel n l ps)"
proof -
  have a: "\<forall>p k. k \<in> labels_of (addLabel n l ps) p \<longleftrightarrow> p \<in> peers_of (addLabel n l ps) k"
    using assms by (auto simp: labels_inverse_def)
  have b: "\<forall>p. peer2Labels (addLabel n l ps) p \<noteq> Some {}"
    using assms by (auto simp: labels_inverse_def addLabel_def)
  have c: "\<forall>k. label2Peers (addLabel n l ps) k \<noteq> Some {}"
    using assms by (auto simp: labels_inverse_def addLabel_def)
  show ?thesis unfolding labels_inverse_def using a b c by blast
qed

lemma labels_inverse_removeLabel:
  assumes "labels_inverse ps" shows "labels_inverse (removeLabel n l ps)"
proof -
  have a: "\<forall>p k. k \<in> labels_of (removeLabel n l ps) p \<longleftrightarrow> p \<in> peers_of (removeLabel n l ps) k"
    using assms by (auto simp: labels_inverse_def)
  have b: "\<forall>p. peer2Labels (removeLabel n l ps) p \<noteq> Some {}"
    using assms by (auto simp: labels_inverse_def removeLabel_def Let_def split: option.splits if_splits)
  have c: "\<forall>k. label2Peers (removeLabel n l ps) k \<noteq> Some {}"
    using assms by (auto simp: labels_inverse_def removeLabel_def Let_def split: option.splits if_splits)
  show ?thesis unfolding labels_inverse_def using a b c by blast
qed

lemma labels_inverse_update [simp]:
  "labels_inverse (ps\<lparr>srvr_direct := d\<rparr>) = labels_inverse ps"
  "labels_inverse (ps\<lparr>srvr_groups := g\<rparr>) = labels_inverse ps"
  "labels_inverse (ps\<lparr>history := h\<rparr>) = labels_inverse ps"
  "labels_inverse (ps\<lparr>notaryHistory := h\<rparr>) = labels_inverse ps"
  "labels_inverse (ps\<lparr>dkgHistory := h\<rparr>) = labels_inverse ps"
  by (simp_all add: labels_inverse_def labels_of_def peers_of_def)

lemma labels_inverse_addDirectPeer:
  "labels_inverse ps \<Longrightarrow> labels_inverse (addDirectPeer env pk l ps)"
  by (simp add: addDirectPeer_def Let_def labels_inverse_addLabel)

lemma labels_inverse_removeDirectPeer:
  "labels_inverse ps \<Longrightarrow> labels_inverse (removeDirectPeer env pk l ps)"
  by (simp add: removeDirectPeer_def Let_def labels_inverse_removeLabel)

lemma labels_inverse_fold_addLabel:
  "labels_inverse ps \<Longrightarrow> labels_inverse (fold (\<lambda>pk. addLabel (nodeID env pk) l) pks ps)"
  by (induction pks arbitrary: ps) (simp_all add: labels_inverse_addLabel)

lemma labels_inverse_fold_removeLabel:
  "labels_inverse ps \<Longrightarrow> labels_inverse (fold (\<lambda>pk. removeLabel (nodeID env pk) l) pks ps)"
  by (induction pks arbitrary: ps) (simp_all add: labels_inverse_removeLabel)

lemma labels_inverse_fold_addDirectPeer:
  "labels_inverse ps \<Longrightarrow> labels_inverse (fold (\<lambda>pk. addDirectPeer env pk l) pks ps)"
  by (induction pks arbitrary: ps) (simp_all add: labels_inverse_addDirectPeer)

lemma labels_inverse_fold_removeDirectPeer:
  "labels_inverse ps \<Longrightarrow> labels_inverse (fold (\<lambda>pk. removeDirectPeer env pk l) pks ps)"
  by (induction pks arbitrary: ps) (simp_all add: labels_inverse_removeDirectPeer)

lemmas labels_inverse_folds =
  labels_inverse_fold_addLabel labels_inverse_fold_removeLabel
  labels_inverse_fold_addDirectPeer labels_inverse_fold_removeDirectPeer

lemma labels_inverse_build_notary_chain:
  "labels_inverse (fst st) \<Longrightarrow> labels_inverse (fst (build_notary_chain env r cid st))"
  by (simp add: build_notary_chain_def Let_def AddGroup_def labels_inverse_folds
        split: option.splits)

lemma labels_inverse_forget_notary_chain:
  "labels_inverse (fst st) \<Longrightarrow> labels_inverse (fst (forget_notary_chain env r cid st))"
  by (simp add: forget_notary_chain_def Let_def RemoveGroup_def labels_inverse_folds
        split: option.splits)

lemma labels_inverse_fold_build_notary_chain:
  "labels_inverse (fst st) \<Longrightarrow>
   labels_inverse (fst (fold (build_notary_chain env r) cids st))"
  by (induction cids arbitrary: st) (simp_all add: labels_inverse_build_notary_chain)

lemma labels_inverse_fold_forget_notary_chain:
  "labels_inverse (fst st) \<Longrightarrow>
   labels_inverse (fst (fold (forget_notary_chain env r) cids st))"
  by (induction cids arbitrary: st) (simp_all add: labels_inverse_forget_notary_chain)

lemma labels_inverse_BuildConnection:
  "labels_inverse ps \<Longrightarrow> labels_inverse (BuildConnection env r ps)"
  by (simp add: BuildConnection_def Let_def split_beta AddGroup_def labels_inverse_folds
        labels_inverse_fold_build_notary_chain)

lemma labels_inverse_forgetConnection:
  "labels_inverse ps \<Longrightarrow> labels_inverse (forgetConnection env r ps)"
  by (simp add: forgetConnection_def Let_def split_beta RemoveGroup_def labels_inverse_folds
        labels_inverse_fold_forget_notary_chain)

lemma labels_inverse_ForgetConnection:
  "labels_inverse ps \<Longrightarrow> labels_inverse (ForgetConnection env r ps)"
  unfolding ForgetConnection_def
  by (rule fold_preserves [where P = labels_inverse])
     (simp_all add: Let_def labels_inverse_forgetConnection)

lemma labels_inverse_build_notary_conn_chain:
  "labels_inverse ps \<Longrightarrow> labels_inverse (build_notary_conn_chain env r cid ps)"
  by (simp add: build_notary_conn_chain_def AddGroup_def Let_def labels_inverse_folds
        split: option.splits)

lemma labels_inverse_BuildNotaryConn:
  "labels_inverse ps \<Longrightarrow> labels_inverse (BuildNotaryConn env r ps)"
  unfolding BuildNotaryConn_def
  by (simp add: fold_preserves [where P = labels_inverse] labels_inverse_build_notary_conn_chain)

lemma labels_inverse_forget_notary_conn_chain:
  "labels_inverse ps \<Longrightarrow> labels_inverse (forget_notary_conn_chain env r cid ps)"
  by (simp add: forget_notary_conn_chain_def RemoveGroup_def Let_def labels_inverse_folds
        split: option.splits)

lemma labels_inverse_forgetNotaryConn:
  "labels_inverse ps \<Longrightarrow> labels_inverse (forgetNotaryConn env r ps)"
  unfolding forgetNotaryConn_def
  by (simp add: fold_preserves [where P = labels_inverse] labels_inverse_forget_notary_conn_chain)

lemma labels_inverse_ForgetNotaryConn:
  "labels_inverse ps \<Longrightarrow> labels_inverse (ForgetNotaryConn env r ps)"
  unfolding ForgetNotaryConn_def
  by (rule fold_preserves [where P = labels_inverse])
     (simp_all add: Let_def labels_inverse_forgetNotaryConn)

lemma labels_inverse_BuildDKGConn:
  "labels_inverse ps \<Longrightarrow> labels_inverse (BuildDKGConn env r ps)"
  by (simp add: BuildDKGConn_def labels_inverse_folds split: option.splits)

lemma labels_inverse_forgetDKGConn:
  "labels_inverse ps \<Longrightarrow> labels_inverse (forgetDKGConn env r ps)"
  by (simp add: forgetDKGConn_def Let_def labels_inverse_folds split: option.splits)

lemma labels_inverse_ForgetDKGConn:
  "labels_inverse ps \<Longrightarrow> labels_inverse (ForgetDKGConn env r ps)"
  unfolding ForgetDKGConn_def
  by (rule fold_preserves [where P = labels_inverse])
     (simp_all add: Let_def labels_inverse_forgetDKGConn)

lemma labels_inverse_topo_step:
  "labels_inverse ps \<Longrightarrow> labels_inverse (topo_step env op ps)"
  by (cases op)
     (simp_all add: labels_inverse_BuildConnection labels_inverse_ForgetConnection
        labels_inverse_BuildNotaryConn labels_inverse_ForgetNotaryConn
        labels_inverse_BuildDKGConn labels_inverse_ForgetDKGConn)

lemma labels_inverse_label_step:
  "labels_inverse ps \<Longrightarrow> labels_inverse (label_step op ps)"
  by (cases op) (simp_all add: labels_inverse_addLabel labels_inverse_removeLabel)

text \<open>
  C10. After any sequence of \<open>addLabel\<close> and \<open>removeLabel\<close> operations, and after any
  sequence of the six topology operations, both starting from the state \<open>newPeerSet\<close>
  creates, \<open>peer2Labels\<close> and \<open>label2Peers\<close> are exact inverses (a label is among a
  peer's labels if and only if the peer is among the label's peers) and neither map
  binds a key to an empty set.
\<close>

theorem label_maps_inverse:
  "(\<forall>p l. l \<in> labels_of (fold label_step lops newPeerSet) p
            \<longleftrightarrow> p \<in> peers_of (fold label_step lops newPeerSet) l)
   \<and> (\<forall>p. peer2Labels (fold label_step lops newPeerSet) p \<noteq> Some {})
   \<and> (\<forall>l. label2Peers (fold label_step lops newPeerSet) l \<noteq> Some {})
   \<and> (\<forall>p l. l \<in> labels_of (topo_run env ops) p \<longleftrightarrow> p \<in> peers_of (topo_run env ops) l)
   \<and> (\<forall>p. peer2Labels (topo_run env ops) p \<noteq> Some {})
   \<and> (\<forall>l. label2Peers (topo_run env ops) l \<noteq> Some {})"
proof -
  have "labels_inverse (fold label_step lops newPeerSet)"
    by (rule fold_preserves [where P = labels_inverse])
       (simp_all add: labels_inverse_label_step labels_inverse_newPeerSet)
  moreover have "labels_inverse (topo_run env ops)"
    unfolding topo_run_def
    by (rule fold_preserves [where P = labels_inverse])
       (simp_all add: labels_inverse_topo_step labels_inverse_newPeerSet)
  ultimately show ?thesis unfolding labels_inverse_def by blast
qed


theorem label_maps_inverse_witness:
  "\<lparr>label_set = dkgset, label_chainID = 0, label_round = 3\<rparr>
      \<in> labels_of (fold label_step
           [OpAddLabel ''a'' \<lparr>label_set = dkgset, label_chainID = 0, label_round = 3\<rparr>,
            OpAddLabel ''b'' \<lparr>label_set = dkgset, label_chainID = 0, label_round = 3\<rparr>,
            OpRemoveLabel ''a'' \<lparr>label_set = dkgset, label_chainID = 0, label_round = 3\<rparr>]
           newPeerSet) ''b''
   \<and> ''b'' \<in> peers_of (fold label_step
           [OpAddLabel ''a'' \<lparr>label_set = dkgset, label_chainID = 0, label_round = 3\<rparr>,
            OpAddLabel ''b'' \<lparr>label_set = dkgset, label_chainID = 0, label_round = 3\<rparr>,
            OpRemoveLabel ''a'' \<lparr>label_set = dkgset, label_chainID = 0, label_round = 3\<rparr>]
           newPeerSet) \<lparr>label_set = dkgset, label_chainID = 0, label_round = 3\<rparr>
   \<and> peer2Labels (fold label_step
           [OpAddLabel ''a'' \<lparr>label_set = dkgset, label_chainID = 0, label_round = 3\<rparr>,
            OpAddLabel ''b'' \<lparr>label_set = dkgset, label_chainID = 0, label_round = 3\<rparr>,
            OpRemoveLabel ''a'' \<lparr>label_set = dkgset, label_chainID = 0, label_round = 3\<rparr>]
           newPeerSet) ''a'' = None
   \<and> \<lparr>label_set = notaryset, label_chainID = 0, label_round = 2\<rparr>
        \<in> labels_of (topo_run example_env [OpBuildConnection 2]) ''p''
   \<and> ''p'' \<in> peers_of (topo_run example_env [OpBuildConnection 2])
                \<lparr>label_set = notaryset, label_chainID = 0, label_round = 2\<rparr>"
  using label_maps_inverse
    [of "[OpAddLabel ''a'' \<lparr>label_set = dkgset, label_chainID = 0, label_round = 3\<rparr>,
          OpAddLabel ''b'' \<lparr>label_set = dkgset, label_chainID = 0, label_round = 3\<rparr>,
          OpRemoveLabel ''a'' \<lparr>label_set = dkgset, label_chainID = 0, label_round = 3\<rparr>]"
        example_env "[OpBuildConnection 2]"]
  by (simp add: topo_defs)

subsection \<open>Direct peers\<close>

lemma labels_of_update [simp]:
  "labels_of (ps\<lparr>srvr_direct := d\<rparr>) = labels_of ps"
  "labels_of (ps\<lparr>srvr_groups := g\<rparr>) = labels_of ps"
  "labels_of (ps\<lparr>history := h\<rparr>) = labels_of ps"
  "labels_of (ps\<lparr>notaryHistory := h\<rparr>) = labels_of ps"
  "labels_of (ps\<lparr>dkgHistory := h\<rparr>) = labels_of ps"
  by (simp_all add: labels_of_def fun_eq_iff)

lemma other_fields_addLabel [simp]:
  "srvr_direct (addLabel n l ps) = srvr_direct ps"
  "history (addLabel n l ps) = history ps"
  by (simp_all add: addLabel_def)

lemma other_fields_removeLabel [simp]:
  "srvr_direct (removeLabel n l ps) = srvr_direct ps"
  "history (removeLabel n l ps) = history ps"
  by (simp_all add: removeLabel_def Let_def)

lemma direct_matches_update [simp]:
  "direct_matches env (ps\<lparr>srvr_groups := g\<rparr>) = direct_matches env ps"
  "direct_matches env (ps\<lparr>history := h\<rparr>) = direct_matches env ps"
  "direct_matches env (ps\<lparr>notaryHistory := h\<rparr>) = direct_matches env ps"
  "direct_matches env (ps\<lparr>dkgHistory := h\<rparr>) = direct_matches env ps"
  by (simp_all add: direct_matches_def)

lemma direct_matches_addDirectPeer:
  "direct_matches env ps \<Longrightarrow> label_is_member env l \<Longrightarrow>
   direct_matches env (addDirectPeer env pk l ps)"
  by (auto simp: direct_matches_def addDirectPeer_def Let_def)

lemma direct_matches_removeDirectPeer:
  "direct_matches env ps \<Longrightarrow> direct_matches env (removeDirectPeer env pk l ps)"
  by (auto simp: direct_matches_def removeDirectPeer_def Let_def)

lemma direct_matches_removeLabel:
  assumes "direct_matches env ps" and "\<not> label_is_member env l"
  shows "direct_matches env (removeLabel n l ps)"
proof -
  have "l \<notin> labels_of ps n" using assms by (auto simp: direct_matches_def)
  then have "labels_of (removeLabel n l ps) = labels_of ps"
    by (auto simp: fun_eq_iff)
  with assms(1) show ?thesis by (simp add: direct_matches_def)
qed

lemma direct_matches_fold_addDirectPeer:
  "direct_matches env ps \<Longrightarrow> label_is_member env l \<Longrightarrow>
   direct_matches env (fold (\<lambda>pk. addDirectPeer env pk l) pks ps)"
  by (induction pks arbitrary: ps) (simp_all add: direct_matches_addDirectPeer)

lemma direct_matches_fold_removeDirectPeer:
  "direct_matches env ps \<Longrightarrow>
   direct_matches env (fold (\<lambda>pk. removeDirectPeer env pk l) pks ps)"
  by (induction pks arbitrary: ps) (simp_all add: direct_matches_removeDirectPeer)

lemma direct_matches_fold_removeLabel:
  "direct_matches env ps \<Longrightarrow> \<not> label_is_member env l \<Longrightarrow>
   direct_matches env (fold (\<lambda>pk. removeLabel (nodeID env pk) l) pks ps)"
  by (induction pks arbitrary: ps) (simp_all add: direct_matches_removeLabel)

lemma member_notary:
  "gov_NotarySet env r cid = Some pks \<Longrightarrow>
   label_is_member env \<lparr>label_set = notaryset, label_chainID = cid, label_round = r\<rparr>
     = (selfPK env \<in> set pks)"
  by (simp add: label_is_member_def)

lemma member_dkg:
  "label_is_member env \<lparr>label_set = dkgset, label_chainID = c, label_round = r\<rparr>
     = (selfPK env \<in> set (pks_or_nil (gov_DKGSet env r)))"
  by (simp add: label_is_member_def)

lemma direct_matches_forget_notary_chain:
  "direct_matches env (fst st) \<Longrightarrow>
   direct_matches env (fst (forget_notary_chain env r cid st))"
  by (simp add: forget_notary_chain_def Let_def RemoveGroup_def member_notary
        direct_matches_fold_removeLabel direct_matches_fold_removeDirectPeer
        split: option.splits)

lemma direct_matches_fold_forget_notary_chain:
  "direct_matches env (fst st) \<Longrightarrow>
   direct_matches env (fst (fold (forget_notary_chain env r) cids st))"
  by (induction cids arbitrary: st) (simp_all add: direct_matches_forget_notary_chain)

lemma direct_matches_forgetConnection:
  "direct_matches env ps \<Longrightarrow> direct_matches env (forgetConnection env r ps)"
  by (simp add: forgetConnection_def Let_def split_beta RemoveGroup_def member_dkg
        direct_matches_fold_removeLabel direct_matches_fold_removeDirectPeer
        direct_matches_fold_forget_notary_chain)

lemma direct_matches_ForgetConnection:
  "direct_matches env ps \<Longrightarrow> direct_matches env (ForgetConnection env r ps)"
  unfolding ForgetConnection_def
  by (rule fold_preserves [where P = "direct_matches env"])
     (simp_all add: Let_def direct_matches_forgetConnection)

lemma direct_matches_build_notary_chain:
  assumes "direct_matches env (fst st)"
    and "case gov_NotarySet env r cid of None \<Rightarrow> True | Some pks \<Rightarrow> selfPK env \<in> set pks"
  shows "direct_matches env (fst (build_notary_chain env r cid st))"
  using assms
  by (simp add: build_notary_chain_def Let_def member_notary
        direct_matches_fold_addDirectPeer split: option.splits)

lemma direct_matches_fold_build_notary_chain:
  "direct_matches env (fst st) \<Longrightarrow>
   list_all (\<lambda>cid. case gov_NotarySet env r cid of
                     None \<Rightarrow> True | Some pks \<Rightarrow> selfPK env \<in> set pks) cids \<Longrightarrow>
   direct_matches env (fst (fold (build_notary_chain env r) cids st))"
  by (induction cids arbitrary: st) (simp_all add: direct_matches_build_notary_chain)

lemma direct_matches_BuildConnection:
  assumes "direct_matches env ps" and "in_every_set env r"
  shows "direct_matches env (BuildConnection env r ps)"
proof -
  let ?dkgLabel = "\<lparr>label_set = dkgset, label_chainID = 0, label_round = r\<rparr>"
  let ?ps0 = "ps\<lparr>history := List.insert r (history ps)\<rparr>"
  let ?ps1 = "if selfPK env \<in> set (pks_or_nil (gov_DKGSet env r))
              then fold (\<lambda>pk. addDirectPeer env pk ?dkgLabel)
                     (removeAll (selfPK env) (pks_or_nil (gov_DKGSet env r))) ?ps0
              else ?ps0"
  let ?st = "fold (build_notary_chain env r) (chain_ids (gov_GetNumChains env r)) (?ps1, False)"
  have 1: "direct_matches env ?ps1"
    using assms(1) by (simp add: direct_matches_fold_addDirectPeer member_dkg)
  have 2: "direct_matches env (fst ?st)"
    using 1 assms(2)
    by (intro direct_matches_fold_build_notary_chain) (simp_all add: in_every_set_def)
  have nil: "selfPK env \<notin> set (pks_or_nil (gov_DKGSet env r)) \<Longrightarrow>
             pks_or_nil (gov_DKGSet env r) = []"
    using assms(2) by (auto simp: in_every_set_def pks_or_nil_def split: option.splits)
  have "BuildConnection env r ps =
        (if selfPK env \<notin> set (pks_or_nil (gov_DKGSet env r)) \<and> snd ?st
         then AddGroup (dkgSetName r) (map (nodeID env) (pks_or_nil (gov_DKGSet env r)))
                (fold (\<lambda>pk. addLabel (nodeID env pk) ?dkgLabel)
                   (pks_or_nil (gov_DKGSet env r)) (fst ?st))
         else fst ?st)"
    by (simp add: BuildConnection_def Let_def split_beta)
  then show ?thesis using 2 nil by (auto simp: AddGroup_def)
qed

lemma direct_matches_build_notary_conn_chain:
  "direct_matches env ps \<Longrightarrow> direct_matches env (build_notary_conn_chain env r cid ps)"
  by (simp add: build_notary_conn_chain_def AddGroup_def Let_def member_notary
        direct_matches_fold_addDirectPeer split: option.splits)

lemma direct_matches_BuildNotaryConn:
  "direct_matches env ps \<Longrightarrow> direct_matches env (BuildNotaryConn env r ps)"
  unfolding BuildNotaryConn_def
  by (simp add: fold_preserves [where P = "direct_matches env"]
        direct_matches_build_notary_conn_chain)

lemma direct_matches_forget_notary_conn_chain:
  "direct_matches env ps \<Longrightarrow> direct_matches env (forget_notary_conn_chain env r cid ps)"
  by (simp add: forget_notary_conn_chain_def RemoveGroup_def Let_def
        direct_matches_fold_removeDirectPeer split: option.splits)

lemma direct_matches_forgetNotaryConn:
  "direct_matches env ps \<Longrightarrow> direct_matches env (forgetNotaryConn env r ps)"
  unfolding forgetNotaryConn_def
  by (simp add: fold_preserves [where P = "direct_matches env"]
        direct_matches_forget_notary_conn_chain)

lemma direct_matches_ForgetNotaryConn:
  "direct_matches env ps \<Longrightarrow> direct_matches env (ForgetNotaryConn env r ps)"
  unfolding ForgetNotaryConn_def
  by (rule fold_preserves [where P = "direct_matches env"])
     (simp_all add: Let_def direct_matches_forgetNotaryConn)

lemma direct_matches_BuildDKGConn:
  "direct_matches env ps \<Longrightarrow> direct_matches env (BuildDKGConn env r ps)"
  by (simp add: BuildDKGConn_def direct_matches_fold_addDirectPeer member_dkg pks_or_nil_def
        split: option.splits)

lemma direct_matches_forgetDKGConn:
  "direct_matches env ps \<Longrightarrow> direct_matches env (forgetDKGConn env r ps)"
  by (simp add: forgetDKGConn_def Let_def direct_matches_fold_removeDirectPeer
        split: option.splits)

lemma direct_matches_ForgetDKGConn:
  "direct_matches env ps \<Longrightarrow> direct_matches env (ForgetDKGConn env r ps)"
  unfolding ForgetDKGConn_def
  by (rule fold_preserves [where P = "direct_matches env"])
     (simp_all add: Let_def direct_matches_forgetDKGConn)

lemma direct_matches_topo_step:
  "direct_matches env ps \<Longrightarrow> \<forall>r. op = OpBuildConnection r \<longrightarrow> in_every_set env r \<Longrightarrow>
   direct_matches env (topo_step env op ps)"
  by (cases op)
     (simp_all add: direct_matches_BuildConnection direct_matches_ForgetConnection
        direct_matches_BuildNotaryConn direct_matches_ForgetNotaryConn
        direct_matches_BuildDKGConn direct_matches_ForgetDKGConn)

lemma direct_matches_fold_topo_step:
  "direct_matches env ps \<Longrightarrow>
   \<forall>op\<in>set ops. \<forall>r. op = OpBuildConnection r \<longrightarrow> in_every_set env r \<Longrightarrow>
   direct_matches env (fold (topo_step env) ops ps)"
  by (induction ops arbitrary: ps) (simp_all add: direct_matches_topo_step)

text \<open>
  C6 (as stated, refuted). When this node is not in a notary set, \<open>BuildConnection\<close>
  labels the members of the set and registers a group, without making them direct
  peers: after \<open>BuildConnection(2)\<close> the peer \<open>p\<close> carries a label and has never been
  added as a direct peer.
\<close>

theorem labelled_not_direct_counterexample:
  "labels_of (topo_run example_env [OpBuildConnection 2]) ''p''
     = {\<lparr>label_set = notaryset, label_chainID = 0, label_round = 2\<rparr>}
   \<and> ''p'' \<notin> srvr_direct (topo_run example_env [OpBuildConnection 2])"
  by (simp add: topo_defs)


text \<open>
  Once the group fallback has been taken the other direction fails as well: a label
  added by the fallback keeps a direct peer alive when its last direct label goes, and
  removing that group label later does not remove the direct peer.
\<close>

lemma direct_not_labelled_after_group_fallback:
  "labels_of (topo_run example_env
       [OpBuildNotaryConn 1, OpBuildConnection 2, OpForgetNotaryConn 1, OpForgetConnection 2]) ''p'' = {}
   \<and> ''p'' \<in> srvr_direct (topo_run example_env
       [OpBuildNotaryConn 1, OpBuildConnection 2, OpForgetNotaryConn 1, OpForgetConnection 2])"
  by (auto simp: topo_defs)


text \<open>
  C6 (amended). After any sequence of BuildConnection, ForgetConnection,
  BuildNotaryConn, ForgetNotaryConn, BuildDKGConn and ForgetDKGConn operations in which
  every \<open>BuildConnection(r)\<close> finds this node in every set governance returns for round
  \<open>r\<close> (so that its group fallback is never taken), a peer id has been added as a direct
  peer and not removed since if and only if its set of labels is non-empty; and whenever
  \<open>removeDirectPeer\<close> leaves a peer without labels, that peer is not a direct peer
  afterwards.
\<close>

theorem direct_peer_iff_labelled:
  assumes "\<forall>op\<in>set ops. \<forall>r. op = OpBuildConnection r \<longrightarrow> in_every_set env r"
  shows "(p \<in> srvr_direct (topo_run env ops) \<longleftrightarrow> labels_of (topo_run env ops) p \<noteq> {})
         \<and> (labels_of (removeDirectPeer env pk l ps) (nodeID env pk) = {}
              \<longrightarrow> nodeID env pk \<notin> srvr_direct (removeDirectPeer env pk l ps))"
proof -
  have "direct_matches env newPeerSet"
    by (simp add: direct_matches_def newPeerSet_def labels_of_def)
  then have "direct_matches env (topo_run env ops)"
    unfolding topo_run_def using assms by (rule direct_matches_fold_topo_step)
  then show ?thesis
    by (auto simp: direct_matches_def removeDirectPeer_def Let_def)
qed


theorem direct_peer_iff_labelled_witness:
  "in_every_set member_env 1
   \<and> srvr_direct (topo_run member_env [OpBuildConnection 1]) = {''p'', ''q''}
   \<and> labels_of (topo_run member_env
        [OpBuildConnection 1, OpBuildNotaryConn 2, OpBuildDKGConn 2]) ''q''
       = {\<lparr>label_set = dkgset, label_chainID = 0, label_round = 1\<rparr>,
          \<lparr>label_set = dkgset, label_chainID = 0, label_round = 2\<rparr>}
   \<and> labels_of (topo_run member_env
        [OpBuildConnection 1, OpBuildNotaryConn 2, OpBuildDKGConn 2, OpForgetConnection 1]) ''q''
       = {\<lparr>label_set = dkgset, label_chainID = 0, label_round = 2\<rparr>}
   \<and> ''q'' \<in> srvr_direct (topo_run member_env
        [OpBuildConnection 1, OpBuildNotaryConn 2, OpBuildDKGConn 2, OpForgetConnection 1])
   \<and> labels_of (topo_run member_env
        [OpBuildConnection 1, OpBuildNotaryConn 2, OpBuildDKGConn 2, OpForgetConnection 1,
         OpForgetDKGConn 2]) ''q'' = {}
   \<and> ''q'' \<notin> srvr_direct (topo_run member_env
        [OpBuildConnection 1, OpBuildNotaryConn 2, OpBuildDKGConn 2, OpForgetConnection 1,
         OpForgetDKGConn 2])
   \<and> labels_of (topo_run member_env
        [OpBuildConnection 1, OpBuildNotaryConn 2, OpBuildDKGConn 2, OpForgetConnection 1,
         OpForgetDKGConn 2]) ''p''
       = {\<lparr>label_set = notaryset, label_chainID = 0, label_round = 2\<rparr>}
   \<and> ''p'' \<in> srvr_direct (topo_run member_env
        [OpBuildConnection 1, OpBuildNotaryConn 2, OpBuildDKGConn 2, OpForgetConnection 1,
         OpForgetDKGConn 2])"
proof -
  have m: "in_every_set member_env 1"
    by (simp add: in_every_set_def member_env_def chain_ids_def)
  have h: "\<forall>op\<in>set [OpBuildConnection 1, OpBuildNotaryConn 2, OpBuildDKGConn 2,
                        OpForgetConnection 1, OpForgetDKGConn 2].
             \<forall>r. op = OpBuildConnection r \<longrightarrow> in_every_set member_env r"
    using m by simp
  have h1: "\<forall>op\<in>set [OpBuildConnection 1, OpBuildNotaryConn 2, OpBuildDKGConn 2,
                        OpForgetConnection 1].
             \<forall>r. op = OpBuildConnection r \<longrightarrow> in_every_set member_env r"
    using m by simp
  have lq: "labels_of (topo_run member_env
        [OpBuildConnection 1, OpBuildNotaryConn 2, OpBuildDKGConn 2, OpForgetConnection 1,
         OpForgetDKGConn 2]) ''q'' = {}"
    by (auto simp: topo_defs member_env_def)
  have lq1: "labels_of (topo_run member_env
        [OpBuildConnection 1, OpBuildNotaryConn 2, OpBuildDKGConn 2, OpForgetConnection 1]) ''q''
       = {\<lparr>label_set = dkgset, label_chainID = 0, label_round = 2\<rparr>}"
    by (auto simp: topo_defs member_env_def)
  have lp: "labels_of (topo_run member_env
        [OpBuildConnection 1, OpBuildNotaryConn 2, OpBuildDKGConn 2, OpForgetConnection 1,
         OpForgetDKGConn 2]) ''p''
       = {\<lparr>label_set = notaryset, label_chainID = 0, label_round = 2\<rparr>}"
    by (auto simp: topo_defs member_env_def)
  have l3: "labels_of (topo_run member_env
        [OpBuildConnection 1, OpBuildNotaryConn 2, OpBuildDKGConn 2]) ''q''
       = {\<lparr>label_set = dkgset, label_chainID = 0, label_round = 1\<rparr>,
          \<lparr>label_set = dkgset, label_chainID = 0, label_round = 2\<rparr>}"
    by (auto simp: topo_defs member_env_def)
  have d1: "srvr_direct (topo_run member_env [OpBuildConnection 1]) = {''p'', ''q''}"
    by (auto simp: topo_defs member_env_def)
  have q: "''q'' \<notin> srvr_direct (topo_run member_env
        [OpBuildConnection 1, OpBuildNotaryConn 2, OpBuildDKGConn 2, OpForgetConnection 1,
         OpForgetDKGConn 2])"
    using conjunct1 [OF direct_peer_iff_labelled [OF h, of "''q''"]] lq by simp
  have p: "''p'' \<in> srvr_direct (topo_run member_env
        [OpBuildConnection 1, OpBuildNotaryConn 2, OpBuildDKGConn 2, OpForgetConnection 1,
         OpForgetDKGConn 2])"
    using conjunct1 [OF direct_peer_iff_labelled [OF h, of "''p''"]] lp by simp
  have q1: "''q'' \<in> srvr_direct (topo_run member_env
        [OpBuildConnection 1, OpBuildNotaryConn 2, OpBuildDKGConn 2, OpForgetConnection 1])"
    using conjunct1 [OF direct_peer_iff_labelled [OF h1, of "''q''"]] lq1 by simp
  show ?thesis using m d1 l3 lq1 q1 lq q lp p by blast
qed


subsection \<open>Forgetting connections\<close>

text \<open>
  C5, evaluated on the code. \<open>BuildConnection(1)\<close> makes \<open>p\<close> a direct peer under the
  notary label of round 1 and records round 1. \<open>ForgetConnection(2)\<close> then runs
  \<open>forgetConnection(2)\<close> for the recorded round 1: the round is deleted from the
  history, while \<open>p\<close> stays a direct peer and keeps its round-1 label. The sibling
  \<open>ForgetNotaryConn(2)\<close> after \<open>BuildNotaryConn(1)\<close> passes the recorded round and
  removes both.
\<close>

theorem ForgetConnection_keeps_recorded_round:
  "labels_of (topo_run example_env [OpBuildConnection 1, OpForgetConnection 2]) ''p''
     = {\<lparr>label_set = notaryset, label_chainID = 0, label_round = 1\<rparr>}
   \<and> srvr_direct (topo_run example_env [OpBuildConnection 1, OpForgetConnection 2]) = {''p''}
   \<and> history (topo_run example_env [OpBuildConnection 1, OpForgetConnection 2]) = []
   \<and> history (topo_run example_env [OpBuildConnection 1]) = [1]
   \<and> srvr_direct (topo_run example_env [OpBuildConnection 1]) = {''p''}
   \<and> srvr_direct (topo_run example_env [OpBuildNotaryConn 1, OpForgetNotaryConn 2]) = {}
   \<and> labels_of (topo_run example_env [OpBuildNotaryConn 1, OpForgetNotaryConn 2]) ''p'' = {}"
  by (simp add: topo_defs)


end
